theory Spec2Isabelle
  imports Complex_Main "HOL-Library.Log_Nat"
begin

section \<open>JavaScript values and errors\<close>

text \<open>
  Request bodies, query strings and route parameters reach the controllers untyped
  (\<^verbatim>\<open>req.body\<close> is \<^verbatim>\<open>any\<close>).  A field of such an object is a JSON value or
  \<^verbatim>\<open>undefined\<close> when the key is absent; objects and arrays are kept opaque, no
  controller looks inside one.  JSON numbers are rationals here.
\<close>

datatype jsval = JUndefined | JNull | JBool bool | JNum rat | JStr string | JObj

text \<open>JavaScript truthiness, as used by \<^verbatim>\<open>if (x)\<close>, \<^verbatim>\<open>!x\<close> and \<^verbatim>\<open>x || y\<close>.\<close>

fun truthy :: "jsval \<Rightarrow> bool" where
  "truthy JUndefined = False"
| "truthy JNull = False"
| "truthy (JBool b) = b"
| "truthy (JNum n) = (n \<noteq> 0)"
| "truthy (JStr s) = (s \<noteq> [])"
| "truthy JObj = True"

type_synonym body = "string \<Rightarrow> jsval"

definition empty_body :: body where
  "empty_body = (\<lambda>k. JUndefined)"

text \<open>Everything a handler can throw.  Each \<^verbatim>\<open>catch\<close> of the source is a case on it.\<close>

datatype error = ZodError "string list" | TypeError | DbError | BcryptError | CloudinaryError

section \<open>Dates\<close>

text \<open>
  A \<^verbatim>\<open>Date\<close> is its time value: milliseconds on the server's local time line.
  The local time zone is taken to have a fixed offset, so a local day has
  \<open>msPerDay\<close> milliseconds and an instant is written by its local milliseconds.
  \<open>MakeDay\<close> and \<open>MakeDate\<close> are the operations of the language standard that
  \<^verbatim>\<open>new Date(y, m, d)\<close>, \<^verbatim>\<open>setMonth\<close>, \<^verbatim>\<open>setDate\<close> and \<^verbatim>\<open>setHours\<close> are
  defined by: a month outside 0..11 carries into the year, and a day of the month
  outside the month carries into the neighbouring months.  Months are 0-based as in
  JavaScript.  The day number of a civil date and its inverse are the usual closed
  forms for the proleptic Gregorian calendar, with day 0 = 1 January 1970.
\<close>

definition msPerDay :: int where
  "msPerDay = 86400000"

definition Day :: "int \<Rightarrow> int" where
  "Day t = t div msPerDay"

definition TimeWithinDay :: "int \<Rightarrow> int" where
  "TimeWithinDay t = t mod msPerDay"

definition days_from_civil :: "int \<Rightarrow> int \<Rightarrow> int \<Rightarrow> int" where
  "days_from_civil y m d =
     (let y' = (if m \<le> 2 then y - 1 else y);
          era = y' div 400;
          yoe = y' - era * 400;
          mp = (m + 9) mod 12;
          doy = (153 * mp + 2) div 5 + d - 1;
          doe = yoe * 365 + yoe div 4 - yoe div 100 + doy
      in era * 146097 + doe - 719468)"

definition civil_from_days :: "int \<Rightarrow> int \<times> int \<times> int" where
  "civil_from_days z =
     (let z' = z + 719468;
          era = z' div 146097;
          doe = z' - era * 146097;
          yoe = (doe - doe div 1460 + doe div 36524 - doe div 146096) div 365;
          doy = doe - (365 * yoe + yoe div 4 - yoe div 100);
          mp = (5 * doy + 2) div 153;
          d = doy - (153 * mp + 2) div 5 + 1;
          m = (if mp < 10 then mp + 3 else mp - 9);
          y = yoe + era * 400
      in (if m \<le> 2 then y + 1 else y, m, d))"

definition MakeDay :: "int \<Rightarrow> int \<Rightarrow> int \<Rightarrow> int" where
  "MakeDay year month date =
     days_from_civil (year + month div 12) (month mod 12 + 1) 1 + date - 1"

definition MakeDate :: "int \<Rightarrow> int \<Rightarrow> int" where
  "MakeDate day time = day * msPerDay + time"

definition getFullYear :: "int \<Rightarrow> int" where
  "getFullYear t = (case civil_from_days (Day t) of (y, m, d) \<Rightarrow> y)"

definition getMonth :: "int \<Rightarrow> int" where
  "getMonth t = (case civil_from_days (Day t) of (y, m, d) \<Rightarrow> m - 1)"

definition getDate :: "int \<Rightarrow> int" where
  "getDate t = (case civil_from_days (Day t) of (y, m, d) \<Rightarrow> d)"

definition setMonth :: "int \<Rightarrow> int \<Rightarrow> int" where
  "setMonth t month = MakeDate (MakeDay (getFullYear t) month (getDate t)) (TimeWithinDay t)"

definition setDate :: "int \<Rightarrow> int \<Rightarrow> int" where
  "setDate t date = MakeDate (MakeDay (getFullYear t) (getMonth t) date) (TimeWithinDay t)"

text \<open>\<^verbatim>\<open>setHours(0, 0, 0, 0)\<close>: midnight of the same local day.\<close>

definition setHours0 :: "int \<Rightarrow> int" where
  "setHours0 t = MakeDate (Day t) 0"

text \<open>\<^verbatim>\<open>new Date(year, month, date)\<close>: local midnight of that day.\<close>

definition newDate :: "int \<Rightarrow> int \<Rightarrow> int \<Rightarrow> int" where
  "newDate year month date = MakeDate (MakeDay year month date) 0"

section \<open>Numbers\<close>

text \<open>
  A JavaScript number is an IEEE 754 double: a rational whose significand has 53
  bits.  \<^verbatim>\<open>parseFloat\<close> of a decimal text, \<^verbatim>\<open>Number\<close> of a count, and each of
  \<^verbatim>\<open>-\<close>, \<^verbatim>\<open>/\<close> and \<^verbatim>\<open>*\<close> give the double nearest to the exact value, a tie
  going to the even significand: \<open>double\<close> of that value.  \<open>binade x\<close> is the
  exponent \<open>e\<close> with \<open>2\<^sup>e \<le> x < 2\<^sup>e\<^sup>+\<^sup>1\<close>, so that the doubles around \<open>x\<close> are
  the multiples of \<open>2\<^sup>e\<^sup>-\<^sup>5\<^sup>2\<close>.  The exponent is not bounded here: no overflow to
  \<^verbatim>\<open>Infinity\<close> and no subnormal numbers, which sums, differences and quotients of
  \<^verbatim>\<open>decimal(10, 2)\<close> amounts and of row counts do not reach.
\<close>

definition binade :: "rat \<Rightarrow> int" where
  "binade x = (if 1 \<le> x then bitlen \<lfloor>x\<rfloor> - 1 else - bitlen (\<lceil>1 / x\<rceil> - 1))"

definition round_half_even :: "rat \<Rightarrow> int" where
  "round_half_even y =
     (let f = \<lfloor>y\<rfloor>; r = y - of_int f
      in if r < 1 / 2 then f else if 1 / 2 < r then f + 1 else if even f then f else f + 1)"

definition double :: "rat \<Rightarrow> rat" where
  "double x =
     (if x = 0 then 0
      else (let ulp = 2 powi (binade \<bar>x\<bar> - 52)
            in of_int (round_half_even (x / ulp)) * ulp))"

text \<open>
  \<^verbatim>\<open>Math.round\<close> of a double: the nearest integer, a tie going up.  It is exact:
  the result is a double again.
\<close>

definition Math_round :: "rat \<Rightarrow> int" where
  "Math_round x = \<lfloor>x + 1 / 2\<rfloor>"

section \<open>Tables\<close>

text \<open>
  The rows of \<^verbatim>\<open>schema.ts\<close>.  A \<^verbatim>\<open>timestamp\<close> is a time value as above, a
  \<^verbatim>\<open>decimal(10, 2)\<close> amount is its number of hundredths, a nullable column is an
  option.
\<close>

record user =
  u_id :: int
  u_name :: string
  u_email :: string
  u_password :: string
  u_role :: string
  u_status :: string
  u_notificationOptIn :: "bool option"
  u_profilePictureUrl :: "string option"
  u_createdAt :: int

record donation =
  d_id :: int
  d_userId :: int
  d_amount :: int
  d_paymentMethod :: string
  d_transactionId :: "string option"
  d_qrImageUrl :: "string option"
  d_esewaReference :: "string option"
  d_status :: string
  d_createdAt :: int

record media =
  m_id :: int
  m_cloudinaryUrl :: string
  m_cloudinaryPublicId :: string
  m_type :: string
  m_title :: string
  m_description :: "string option"
  m_uploadedBy :: int
  m_createdAt :: int

record event =
  e_id :: int
  e_title :: string
  e_description :: string
  e_date :: int
  e_mediaId :: "int option"
  e_createdAt :: int

record sermon =
  s_id :: int
  s_title :: string
  s_description :: string
  s_date :: int
  s_mediaId :: int
  s_duration :: string
  s_createdAt :: int

record contact =
  c_id :: int
  c_name :: string
  c_email :: string
  c_message :: string
  c_status :: string
  c_responseMessage :: "string option"
  c_responseDate :: "int option"
  c_createdAt :: int

record activity =
  a_id :: int
  a_userId :: "int option"
  a_action :: string
  a_details :: string
  a_createdAt :: int

text \<open>
  The database: one list of rows per table, and the next value of the \<^verbatim>\<open>serial\<close>
  sequence of each table the modelled handlers insert into.
\<close>

record db =
  users :: "user list"
  donations :: "donation list"
  media_rows :: "media list"
  events :: "event list"
  sermons :: "sermon list"
  contacts :: "contact list"
  activities :: "activity list"
  donations_seq :: int
  media_seq :: int
  activities_seq :: int

section \<open>Reporting queries of the storage object\<close>

text \<open>
  \<^verbatim>\<open>select sum(amount)\<close> over the selected rows: the database adds the
  \<^verbatim>\<open>decimal(10, 2)\<close> amounts exactly and returns the sum as a decimal text, or
  \<^verbatim>\<open>null\<close> when no row is selected.  \<^verbatim>\<open>parseFloat(result[0]?.total || "0")\<close> then
  reads that text (or \<^verbatim>\<open>"0"\<close>) as a double.
\<close>

definition sum_amount :: "donation list \<Rightarrow> rat" where
  "sum_amount ds = of_int (sum_list (map d_amount ds)) / 100"

definition getTotalDonationAmount :: "donation list \<Rightarrow> rat" where
  "getTotalDonationAmount ds =
     double (sum_amount (filter (\<lambda>d. d_status d = ''completed'') ds))"

definition getMonthlyDonationAmount :: "int \<Rightarrow> donation list \<Rightarrow> rat" where
  "getMonthlyDonationAmount today ds =
     (let firstDayOfMonth = newDate (getFullYear today) (getMonth today) 1
      in double (sum_amount (filter (\<lambda>d. d_status d = ''completed''
              \<and> firstDayOfMonth \<le> d_createdAt d) ds)))"

text \<open>
  The two queries of \<^verbatim>\<open>getDonationGrowthPercentage\<close>: the sum of the completed
  donations since the first day of this month, and of those of the month before.
\<close>

definition currentMonthResult :: "int \<Rightarrow> donation list \<Rightarrow> rat" where
  "currentMonthResult today ds =
     (let firstDayOfMonth = newDate (getFullYear today) (getMonth today) 1
      in sum_amount (filter (\<lambda>d. d_status d = ''completed''
              \<and> firstDayOfMonth \<le> d_createdAt d) ds))"

definition previousMonthResult :: "int \<Rightarrow> donation list \<Rightarrow> rat" where
  "previousMonthResult today ds =
     (let firstDayOfMonth = newDate (getFullYear today) (getMonth today) 1;
          firstDayOfLastMonth = newDate (getFullYear today) (getMonth today - 1) 1
      in sum_amount (filter (\<lambda>d. d_status d = ''completed''
              \<and> firstDayOfLastMonth \<le> d_createdAt d \<and> d_createdAt d < firstDayOfMonth) ds))"

text \<open>The two numbers \<^verbatim>\<open>parseFloat\<close> makes of them.\<close>

definition currentAmount :: "int \<Rightarrow> donation list \<Rightarrow> rat" where
  "currentAmount today ds = double (currentMonthResult today ds)"

definition previousAmount :: "int \<Rightarrow> donation list \<Rightarrow> rat" where
  "previousAmount today ds = double (previousMonthResult today ds)"

text \<open>
  \<^verbatim>\<open>Math.round(((currentAmount - previousAmount) / previousAmount) * 100)\<close>: each of
  the three operations rounds its exact result to a double.
\<close>

definition getDonationGrowthPercentage :: "int \<Rightarrow> donation list \<Rightarrow> int" where
  "getDonationGrowthPercentage today ds =
     (if previousAmount today ds = 0 then (if currentAmount today ds > 0 then 100 else 0)
      else Math_round (double (double (double (currentAmount today ds - previousAmount today ds)
                                         / previousAmount today ds) * 100)))"

text \<open>
  The two queries of \<^verbatim>\<open>getUserGrowthPercentage\<close>: the number of users created in
  the last 30 days, and in the 30 days before those.
\<close>

definition currentPeriodUsers :: "int \<Rightarrow> user list \<Rightarrow> int" where
  "currentPeriodUsers today us =
     (let thirtyDaysAgo = setDate today (getDate today - 30)
      in int (length (filter (\<lambda>u. thirtyDaysAgo \<le> u_createdAt u
              \<and> u_createdAt u < today) us)))"

definition previousPeriodUsers :: "int \<Rightarrow> user list \<Rightarrow> int" where
  "previousPeriodUsers today us =
     (let thirtyDaysAgo = setDate today (getDate today - 30);
          sixtyDaysAgo = setDate today (getDate today - 60)
      in int (length (filter (\<lambda>u. sixtyDaysAgo \<le> u_createdAt u
              \<and> u_createdAt u < thirtyDaysAgo) us)))"

text \<open>The counts as numbers (\<^verbatim>\<open>count()\<close> maps the database's text with \<^verbatim>\<open>Number\<close>).\<close>

definition currentCount :: "int \<Rightarrow> user list \<Rightarrow> rat" where
  "currentCount today us = double (of_int (currentPeriodUsers today us))"

definition previousCount :: "int \<Rightarrow> user list \<Rightarrow> rat" where
  "previousCount today us = double (of_int (previousPeriodUsers today us))"

definition getUserGrowthPercentage :: "int \<Rightarrow> user list \<Rightarrow> int" where
  "getUserGrowthPercentage today us =
     (if previousCount today us = 0 then (if currentCount today us > 0 then 100 else 0)
      else Math_round (double (double (double (currentCount today us - previousCount today us)
                                         / previousCount today us) * 100)))"

subsection \<open>The six-month trend of the donation summary\<close>

text \<open>
  The first loop of the trend: for \<open>i = 0, \<dots>, 5\<close> a copy of \<open>today\<close> is moved
  back \<open>i\<close> months with \<^verbatim>\<open>setMonth\<close>, then to day 1 and to midnight, and put at
  the front of \<open>months\<close>.
\<close>

definition month_start :: "int \<Rightarrow> int \<Rightarrow> int" where
  "month_start today i = setHours0 (setDate (setMonth today (getMonth today - i)) 1)"

function months_loop :: "int \<Rightarrow> int \<Rightarrow> int list \<Rightarrow> int list" where
  "months_loop today i months =
     (if i < 6 then months_loop today (i + 1) (month_start today i # months) else months)"
  by pat_completeness auto
termination
  by (relation "measure (\<lambda>(today, i, months). nat (6 - i))") auto

text \<open>
  The second loop: bucket \<open>i\<close> runs from \<open>months[i]\<close> to \<open>months[i + 1]\<close>, the
  last one to \<open>today\<close>.  A bucket is labelled by the month and year of its start
  (the source prints them with \<^verbatim>\<open>toLocaleString\<close>; the pair stands for the text).
\<close>

record trend_point =
  tp_month :: int
  tp_year :: int
  tp_amount :: rat

fun trend_loop :: "int \<Rightarrow> donation list \<Rightarrow> int list \<Rightarrow> trend_point list" where
  "trend_loop today ds [] = []"
| "trend_loop today ds (currentMonth # rest) =
     (let endDate = (case rest of [] \<Rightarrow> today | next_month # _ \<Rightarrow> next_month)
      in \<lparr>tp_month = getMonth currentMonth, tp_year = getFullYear currentMonth,
          tp_amount = double (sum_amount (filter (\<lambda>d. d_status d = ''completed''
              \<and> currentMonth \<le> d_createdAt d \<and> d_createdAt d < endDate) ds))\<rparr>
         # trend_loop today ds rest)"

definition monthlyTrend :: "int \<Rightarrow> donation list \<Rightarrow> trend_point list" where
  "monthlyTrend today ds = trend_loop today ds (months_loop today 0 [])"

subsection \<open>The donation summary\<close>

text \<open>
  \<open>storage\<close> is an object literal whose properties are arrow functions.  An arrow
  function has no \<^verbatim>\<open>this\<close> of its own: \<^verbatim>\<open>this\<close> in its body is the one of the
  enclosing scope, here the top level of the module, whatever object the function is
  called on.  That is \<^verbatim>\<open>undefined\<close> in an ES module and \<^verbatim>\<open>module.exports\<close>,
  whose only property is \<open>storage\<close>, in a CommonJS module.  \<open>ThisStorage\<close> is the
  receiver a method of \<open>storage\<close> would see; the arrow function never does.
  Reading a property of \<^verbatim>\<open>undefined\<close> throws, and so does calling a property that
  is not there.
\<close>

datatype js_this = ThisUndefined | ThisModuleExports | ThisStorage

datatype module_format = ESModule | CommonJS

definition module_this :: "module_format \<Rightarrow> js_this" where
  "module_this fmt = (case fmt of ESModule \<Rightarrow> ThisUndefined | CommonJS \<Rightarrow> ThisModuleExports)"

text \<open>\<^verbatim>\<open>this.helper()\<close> for a helper of \<open>storage\<close> whose result would be \<open>result\<close>.\<close>

definition this_call :: "js_this \<Rightarrow> 'a \<Rightarrow> error + 'a" where
  "this_call this_val result =
     (case this_val of ThisStorage \<Rightarrow> Inr result | _ \<Rightarrow> Inl TypeError)"

record summary =
  sm_totalDonations :: rat
  sm_monthlyTotal :: rat
  sm_averageDonation :: rat
  sm_donationGrowth :: int
  sm_totalDonors :: nat
  sm_statusBreakdown :: "(string \<times> nat) list"
  sm_monthlyTrend :: "trend_point list"
  sm_paymentMethodBreakdown :: "(string \<times> nat) list"

text \<open>The \<^verbatim>\<open>switch\<close> on the period: \<open>startDate\<close>, \<open>None\<close> for \<^verbatim>\<open>null\<close>.\<close>

definition period_start :: "int \<Rightarrow> string \<Rightarrow> int option" where
  "period_start today period =
     (if period = ''this_month'' then Some (newDate (getFullYear today) (getMonth today) 1)
      else if period = ''last_month''
        then Some (newDate (getFullYear today) (getMonth today - 1) 1)
      else if period = ''this_year'' then Some (newDate (getFullYear today) 0 1)
      else None)"

text \<open>
  \<^verbatim>\<open>select key, count(*) ... group by key\<close>: one pair per key that occurs (the
  order of the groups is the database's choice).
\<close>

definition group_count :: "string list \<Rightarrow> (string \<times> nat) list" where
  "group_count keys = map (\<lambda>k. (k, count_list keys k)) (remdups keys)"

fun replace_first :: "char \<Rightarrow> char \<Rightarrow> string \<Rightarrow> string" where
  "replace_first a b [] = []"
| "replace_first a b (ch # str) = (if ch = a then b # str else ch # replace_first a b str)"

text \<open>
  \<open>getDonationSummary\<close> with the \<^verbatim>\<open>this\<close> its body sees as a parameter.  The
  queries are evaluated in the order of the source; the first two uses of
  \<^verbatim>\<open>this\<close> come right after the first query.  The total and the average are
  read with \<^verbatim>\<open>parseFloat\<close>; the database's \<^verbatim>\<open>avg\<close> is taken as the exact
  quotient.
\<close>

definition getDonationSummary :: "js_this \<Rightarrow> int \<Rightarrow> string \<Rightarrow> donation list \<Rightarrow> error + summary" where
  "getDonationSummary this_val today period ds =
     (let startDate = period_start today period;
          selected = filter (\<lambda>d. d_status d = ''completed''
                        \<and> (case startDate of None \<Rightarrow> True | Some t \<Rightarrow> t \<le> d_createdAt d)) ds;
          totalResult = double (sum_amount selected)
      in case this_call this_val (getMonthlyDonationAmount today ds) of
           Inl err \<Rightarrow> Inl err
         | Inr monthlyTotal \<Rightarrow>
            (let avgResult = (if selected = [] then 0
                              else double (sum_amount selected / of_nat (length selected)))
             in case this_call this_val (getDonationGrowthPercentage today ds) of
                  Inl err \<Rightarrow> Inl err
                | Inr donationGrowth \<Rightarrow>
                    Inr \<lparr>sm_totalDonations = totalResult,
                         sm_monthlyTotal = monthlyTotal,
                         sm_averageDonation = avgResult,
                         sm_donationGrowth = donationGrowth,
                         sm_totalDonors = length (remdups (map d_userId selected)),
                         sm_statusBreakdown = group_count (map d_status ds),
                         sm_monthlyTrend = monthlyTrend today ds,
                         sm_paymentMethodBreakdown =
                           map (\<lambda>(m, n). (replace_first CHR ''_'' CHR '' '' m, n))
                             (group_count (map d_paymentMethod selected))\<rparr>))"

section \<open>Requests and responses\<close>

text \<open>
  \<^verbatim>\<open>req.user\<close>, set by \<open>setUserInfo\<close>: the user's row without the password
  (\<open>createdAt\<close> is printed as an ISO string there; the time value stands for it).
\<close>

record identity =
  i_id :: int
  i_name :: string
  i_email :: string
  i_role :: string
  i_notificationOptIn :: bool
  i_profilePictureUrl :: "string option"
  i_createdAt :: int

text \<open>A user row as it is sent: \<^verbatim>\<open>const { password, ...userWithoutPassword } = user\<close>.\<close>

record public_user =
  p_id :: int
  p_name :: string
  p_email :: string
  p_role :: string
  p_status :: string
  p_notificationOptIn :: "bool option"
  p_profilePictureUrl :: "string option"
  p_createdAt :: int

definition without_password :: "user \<Rightarrow> public_user" where
  "without_password u =
     \<lparr>p_id = u_id u, p_name = u_name u, p_email = u_email u, p_role = u_role u,
      p_status = u_status u, p_notificationOptIn = u_notificationOptIn u,
      p_profilePictureUrl = u_profilePictureUrl u, p_createdAt = u_createdAt u\<rparr>"

text \<open>
  The JSON a handler sends.  \<open>Message\<close> is \<^verbatim>\<open>{ message }\<close>; \<open>ValidationMessage\<close>
  is \<^verbatim>\<open>{ message: fromZodError(error).message }\<close>, kept as the list of the issues it
  aggregates; \<open>NoBody\<close> is \<^verbatim>\<open>res.json(undefined)\<close>; a bare list of rows is what
  \<^verbatim>\<open>res.json(rows)\<close> sends.
\<close>

datatype payload =
    NoBody
  | Message string
  | ValidationMessage "string list"
  | UploadFailure error
  | UserJson public_user
  | DonationJson donation
  | DonationList "donation list"
  | SummaryJson summary
  | MediaJson media
  | EventJson event
  | SermonJson sermon
  | ContactJson contact

datatype response = Response nat payload

fun status_of :: "response \<Rightarrow> nat" where
  "status_of (Response code p) = code"

fun payload_of :: "response \<Rightarrow> payload" where
  "payload_of (Response code p) = p"

section \<open>Writing columns from an untyped object\<close>

text \<open>
  \<^verbatim>\<open>db.update(table).set(data)\<close> writes the columns of the table that are keys of
  \<open>data\<close> with a value other than \<^verbatim>\<open>undefined\<close>; other keys are no columns.
  The tables are typed: a value of the column's type is written; a value of another
  JSON type is taken to be refused by the storage layer (a driver may coerce some
  instead; no statement below depends on which).  A \<^verbatim>\<open>timestamp\<close> column needs a
  \<^verbatim>\<open>Date\<close> object, which no JSON body holds, so any value for it is refused.
\<close>

fun text_ok :: "jsval \<Rightarrow> bool" where
  "text_ok JUndefined = True"
| "text_ok (JStr s) = True"
| "text_ok v = False"

fun text_val :: "jsval \<Rightarrow> string \<Rightarrow> string" where
  "text_val (JStr s) old = s"
| "text_val v old = old"

fun text_null_ok :: "jsval \<Rightarrow> bool" where
  "text_null_ok JUndefined = True"
| "text_null_ok JNull = True"
| "text_null_ok (JStr s) = True"
| "text_null_ok v = False"

fun text_null_val :: "jsval \<Rightarrow> string option \<Rightarrow> string option" where
  "text_null_val (JStr s) old = Some s"
| "text_null_val JNull old = None"
| "text_null_val v old = old"

fun bool_null_ok :: "jsval \<Rightarrow> bool" where
  "bool_null_ok JUndefined = True"
| "bool_null_ok JNull = True"
| "bool_null_ok (JBool b) = True"
| "bool_null_ok v = False"

fun bool_null_val :: "jsval \<Rightarrow> bool option \<Rightarrow> bool option" where
  "bool_null_val (JBool b) old = Some b"
| "bool_null_val JNull old = None"
| "bool_null_val v old = old"

fun int_ok :: "jsval \<Rightarrow> bool" where
  "int_ok JUndefined = True"
| "int_ok (JNum n) = (of_int \<lfloor>n\<rfloor> = n)"
| "int_ok v = False"

fun int_val :: "jsval \<Rightarrow> int \<Rightarrow> int" where
  "int_val (JNum n) old = \<lfloor>n\<rfloor>"
| "int_val v old = old"

fun int_null_ok :: "jsval \<Rightarrow> bool" where
  "int_null_ok JUndefined = True"
| "int_null_ok JNull = True"
| "int_null_ok (JNum n) = (of_int \<lfloor>n\<rfloor> = n)"
| "int_null_ok v = False"

fun int_null_val :: "jsval \<Rightarrow> int option \<Rightarrow> int option" where
  "int_null_val (JNum n) old = Some \<lfloor>n\<rfloor>"
| "int_null_val JNull old = None"
| "int_null_val v old = old"

definition timestamp_ok :: "jsval \<Rightarrow> bool" where
  "timestamp_ok v = (v = JUndefined)"

text \<open>
  An update that gives no column of the table a value is refused: the query builder
  throws \<^verbatim>\<open>No values to set\<close>.
\<close>

definition has_value :: "string list \<Rightarrow> body \<Rightarrow> bool" where
  "has_value columns data = list_ex (\<lambda>k. data k \<noteq> JUndefined) columns"

section \<open>Storage: users\<close>

definition getUserById :: "int \<Rightarrow> db \<Rightarrow> user option" where
  "getUserById i s = find (\<lambda>u. u_id u = i) (users s)"

definition user_columns :: "string list" where
  "user_columns = [''id'', ''name'', ''email'', ''password'', ''role'', ''status'',
                   ''notificationOptIn'', ''profilePictureUrl'', ''createdAt'']"

definition user_set_ok :: "body \<Rightarrow> bool" where
  "user_set_ok data =
     (int_ok (data ''id'') \<and> text_ok (data ''name'') \<and> text_ok (data ''email'')
      \<and> text_ok (data ''password'') \<and> text_ok (data ''role'') \<and> text_ok (data ''status'')
      \<and> bool_null_ok (data ''notificationOptIn'')
      \<and> text_null_ok (data ''profilePictureUrl'') \<and> timestamp_ok (data ''createdAt''))"

definition user_set :: "body \<Rightarrow> user \<Rightarrow> user" where
  "user_set data u =
     \<lparr>u_id = int_val (data ''id'') (u_id u),
      u_name = text_val (data ''name'') (u_name u),
      u_email = text_val (data ''email'') (u_email u),
      u_password = text_val (data ''password'') (u_password u),
      u_role = text_val (data ''role'') (u_role u),
      u_status = text_val (data ''status'') (u_status u),
      u_notificationOptIn = bool_null_val (data ''notificationOptIn'') (u_notificationOptIn u),
      u_profilePictureUrl = text_null_val (data ''profilePictureUrl'') (u_profilePictureUrl u),
      u_createdAt = u_createdAt u\<rparr>"

text \<open>
  \<^verbatim>\<open>storage.updateUser\<close>: one \<^verbatim>\<open>update ... where id = $1 returning *\<close>.  It
  fails as a whole when a value is refused or when the primary key or the unique
  email would no longer be unique; otherwise it returns the rows it wrote.
\<close>

definition updateUser :: "int \<Rightarrow> body \<Rightarrow> db \<Rightarrow> error + (user list \<times> db)" where
  "updateUser i data s =
     (let us = map (\<lambda>u. if u_id u = i then user_set data u else u) (users s)
      in if \<not> has_value user_columns data \<or> \<not> user_set_ok data then Inl DbError
         else if \<not> distinct (map u_id us) \<or> \<not> distinct (map u_email us) then Inl DbError
         else Inr (map (user_set data) (filter (\<lambda>u. u_id u = i) (users s)), s\<lparr>users := us\<rparr>))"

text \<open>
  \<^verbatim>\<open>storage.deleteUser\<close>.  \<^verbatim>\<open>schema.ts\<close> declares \<open>donations.userId\<close>,
  \<open>media.uploadedBy\<close> and \<open>activities.userId\<close> as references to \<open>users.id\<close>
  with no delete rule, so a referenced user cannot be deleted.
\<close>

definition user_referenced :: "int \<Rightarrow> db \<Rightarrow> bool" where
  "user_referenced i s =
     (list_ex (\<lambda>d. d_userId d = i) (donations s)
      \<or> list_ex (\<lambda>m. m_uploadedBy m = i) (media_rows s)
      \<or> list_ex (\<lambda>a. a_userId a = Some i) (activities s))"

definition deleteUser :: "int \<Rightarrow> db \<Rightarrow> error + db" where
  "deleteUser i s =
     (if user_referenced i s then Inl DbError
      else Inr (s\<lparr>users := filter (\<lambda>u. u_id u \<noteq> i) (users s)\<rparr>))"

section \<open>Activity log\<close>

text \<open>
  \<^verbatim>\<open>logActivity\<close> of \<^verbatim>\<open>utils/activity.ts\<close>: \<^verbatim>\<open>userId || null\<close>, then one insert
  through \<^verbatim>\<open>storage.createActivity\<close>; an error of the insert (here: the user
  reference does not exist) is caught and only printed.  \<open>now\<close> is the
  database's \<^verbatim>\<open>defaultNow()\<close>.
\<close>

definition logActivity :: "int \<Rightarrow> int option \<Rightarrow> string \<Rightarrow> string \<Rightarrow> db \<Rightarrow> db" where
  "logActivity now userId action details s =
     (let uid = (if userId = Some 0 then None else userId)
      in if (case uid of None \<Rightarrow> False | Some i \<Rightarrow> getUserById i s = None) then s
         else s\<lparr>activities := activities s @
                  [\<lparr>a_id = activities_seq s, a_userId = uid, a_action = action,
                    a_details = details, a_createdAt = now\<rparr>],
                activities_seq := activities_seq s + 1\<rparr>)"

section \<open>User controller\<close>

definition OWNER_EMAIL :: string where
  "OWNER_EMAIL = ''shahidsingh1432@gmail.com''"

text \<open>
  The handlers take the result of \<^verbatim>\<open>parseInt(req.params.id)\<close> (\<open>None\<close> for
  \<^verbatim>\<open>NaN\<close>), the body, \<^verbatim>\<open>req.user\<close> and the database, and return the response and
  the database after the request.  \<open>hash\<close> is the outcome of
  \<^verbatim>\<open>bcrypt.hash(_, 10)\<close>, which throws on anything but a string.

  The routes of \<open>register(true)\<close> are mounted in \<^verbatim>\<open>routes.ts\<close> behind
  \<open>authenticateJWT\<close> and \<open>isOwner\<close>, modelled further down.
\<close>

definition admin_update_user ::
  "(string \<Rightarrow> string) \<Rightarrow> int \<Rightarrow> int option \<Rightarrow> body \<Rightarrow> identity option \<Rightarrow> db \<Rightarrow> response \<times> db" where
  "admin_update_user hash now idParam reqBody reqUser s =
     (case idParam of
        None \<Rightarrow> (Response 400 (Message ''Invalid user ID''), s)
      | Some userId \<Rightarrow>
         (case getUserById userId s of
            None \<Rightarrow> (Response 404 (Message ''User not found''), s)
          | Some user \<Rightarrow>
             if u_email user = OWNER_EMAIL \<and> reqBody ''role'' = JStr ''user''
             then (Response 403 (Message ''Cannot change the owner's role''), s)
             else
               (case (if truthy (reqBody ''password'')
                      then (case reqBody ''password'' of
                              JStr pw \<Rightarrow> Inr (reqBody(''password'' := JStr (hash pw)))
                            | _ \<Rightarrow> Inl BcryptError)
                      else Inr reqBody) of
                  Inl err \<Rightarrow>
                    (Response 500 (Message ''An error occurred while updating the user''), s)
                | Inr updatedData \<Rightarrow>
                   (case updateUser userId updatedData s of
                      Inl err \<Rightarrow>
                        (Response 500 (Message ''An error occurred while updating the user''), s)
                    | Inr (rows, s1) \<Rightarrow>
                       (let s2 = logActivity now (map_option i_id reqUser) ''user_update''
                                   (''Admin updated user: '' @ u_email user) s1
                        in case rows of
                             [] \<Rightarrow> (Response 500
                                     (Message ''An error occurred while updating the user''), s2)
                           | updatedUser # _ \<Rightarrow>
                               (Response 200 (UserJson (without_password updatedUser)), s2))))))"

definition admin_delete_user ::
  "int \<Rightarrow> int option \<Rightarrow> identity option \<Rightarrow> db \<Rightarrow> response \<times> db" where
  "admin_delete_user now idParam reqUser s =
     (case idParam of
        None \<Rightarrow> (Response 400 (Message ''Invalid user ID''), s)
      | Some userId \<Rightarrow>
         (case getUserById userId s of
            None \<Rightarrow> (Response 404 (Message ''User not found''), s)
          | Some user \<Rightarrow>
             if u_email user = OWNER_EMAIL
             then (Response 403 (Message ''Cannot delete the owner account''), s)
             else
               (case deleteUser userId s of
                  Inl err \<Rightarrow>
                    (Response 500 (Message ''An error occurred while deleting the user''), s)
                | Inr s1 \<Rightarrow>
                    (Response 200 (Message ''User deleted successfully''),
                     logActivity now (map_option i_id reqUser) ''user_delete''
                       (''Admin deleted user: '' @ u_email user) s1))))"

text \<open>
  The loop over \<open>allowedFields\<close> that the allow-listing handlers share:
  \<^verbatim>\<open>if (req.body[field] !== undefined) updateData[field] = req.body[field]\<close>.
\<close>

fun pick_allowed :: "string list \<Rightarrow> body \<Rightarrow> body \<Rightarrow> body" where
  "pick_allowed [] reqBody updateData = updateData"
| "pick_allowed (field # more_fields) reqBody updateData =
     pick_allowed more_fields reqBody
       (if reqBody field \<noteq> JUndefined then updateData(field := reqBody field) else updateData)"

text \<open>
  \<^verbatim>\<open>PATCH /users/profile\<close> and \<^verbatim>\<open>DELETE /users/profile\<close>.  \<open>authenticateJWT\<close>
  stands before both handlers and answers 401 itself when \<^verbatim>\<open>req.user\<close> is not set.
  A response is its status and its JSON; that the successful delete also clears the
  session cookie is not recorded.
\<close>

definition update_profile :: "int \<Rightarrow> body \<Rightarrow> identity option \<Rightarrow> db \<Rightarrow> response \<times> db" where
  "update_profile now reqBody reqUser s =
     (case reqUser of
        None \<Rightarrow> (Response 401 (Message ''Unauthorized - Authentication required''), s)
      | Some ident \<Rightarrow>
         (let updateData = pick_allowed [''name'', ''notificationOptIn'', ''profilePictureUrl'']
                             reqBody empty_body
          in case updateUser (i_id ident) updateData s of
               Inl err \<Rightarrow>
                 (Response 500 (Message ''An error occurred while updating your profile''), s)
             | Inr (rows, s1) \<Rightarrow>
                (let s2 = logActivity now (Some (i_id ident)) ''user_update''
                            (''User updated their profile: '' @ i_email ident) s1
                 in case rows of
                      [] \<Rightarrow> (Response 500
                              (Message ''An error occurred while updating your profile''), s2)
                    | updatedUser # _ \<Rightarrow>
                        (Response 200 (UserJson (without_password updatedUser)), s2))))"

definition delete_profile :: "int \<Rightarrow> identity option \<Rightarrow> db \<Rightarrow> response \<times> db" where
  "delete_profile now reqUser s =
     (case reqUser of
        None \<Rightarrow> (Response 401 (Message ''Unauthorized - Authentication required''), s)
      | Some ident \<Rightarrow>
         if i_email ident = OWNER_EMAIL
         then (Response 403 (Message ''Cannot delete the owner account''), s)
         else
           (case deleteUser (i_id ident) s of
              Inl err \<Rightarrow>
                (Response 500 (Message ''An error occurred while deleting your account''), s)
            | Inr s1 \<Rightarrow>
                (Response 200 (Message ''Account deleted successfully''),
                 logActivity now (Some (i_id ident)) ''user_delete''
                   (''User deleted their account: '' @ i_email ident) s1)))"

section \<open>Access control middleware\<close>

text \<open>
  A request as the middleware sees it: the parsed cookies (\<open>None\<close> when there is
  no \<^verbatim>\<open>req.cookies\<close> object) and \<^verbatim>\<open>req.user\<close>.  A middleware either calls
  \<^verbatim>\<open>next()\<close>, handing the request on, or sends a response.
\<close>

record request =
  cookies :: "(string \<Rightarrow> string option) option"
  req_user :: "identity option"

datatype middleware_result = Next request | Respond response

text \<open>
  The payload of a token as \<open>generateToken\<close> signs it.  \<open>jwt_verify\<close> stands
  for \<^verbatim>\<open>jwt.verify(token, JWT_SECRET)\<close> of the library: \<open>None\<close> when it throws
  (bad signature, expired, malformed).  \<open>verifyToken\<close> turns the exception into
  \<^verbatim>\<open>null\<close>.
\<close>

record claims =
  jwt_id :: "int option"
  jwt_email :: string
  jwt_role :: string

definition verifyToken :: "(string \<Rightarrow> claims option) \<Rightarrow> string \<Rightarrow> claims option" where
  "verifyToken jwt_verify token =
     (case jwt_verify token of None \<Rightarrow> None | Some decoded \<Rightarrow> Some decoded)"

definition identity_of :: "user \<Rightarrow> identity" where
  "identity_of u =
     \<lparr>i_id = u_id u, i_name = u_name u, i_email = u_email u, i_role = u_role u,
      i_notificationOptIn = (u_notificationOptIn u = Some True),
      i_profilePictureUrl =
        (case u_profilePictureUrl u of
           None \<Rightarrow> None
         | Some url \<Rightarrow> if url = [] then None else Some url),
      i_createdAt = u_createdAt u\<rparr>"

definition setUserInfo :: "(string \<Rightarrow> claims option) \<Rightarrow> db \<Rightarrow> request \<Rightarrow> middleware_result" where
  "setUserInfo jwt_verify s req =
     (case cookies req of
        None \<Rightarrow> Next req
      | Some cs \<Rightarrow>
         (case cs ''auth_token'' of
            None \<Rightarrow> Next req
          | Some token \<Rightarrow>
             if token = [] then Next req
             else
               (case verifyToken jwt_verify token of
                  None \<Rightarrow> Next req
                | Some decoded \<Rightarrow>
                   (case jwt_id decoded of
                      None \<Rightarrow> Next req
                    | Some uid \<Rightarrow>
                       if uid = 0 then Next req
                       else
                         (case getUserById uid s of
                            None \<Rightarrow> Next req
                          | Some user \<Rightarrow>
                             if u_status user = ''inactive'' then Next req
                             else Next (req\<lparr>req_user := Some (identity_of user)\<rparr>))))))"

definition authenticateJWT :: "request \<Rightarrow> middleware_result" where
  "authenticateJWT req =
     (case req_user req of
        None \<Rightarrow> Respond (Response 401 (Message ''Unauthorized - Authentication required''))
      | Some ident \<Rightarrow> Next req)"

definition isOwner :: "request \<Rightarrow> middleware_result" where
  "isOwner req =
     (case req_user req of
        None \<Rightarrow> Respond (Response 401 (Message ''Unauthorized - Authentication required''))
      | Some ident \<Rightarrow>
         if i_role ident \<noteq> ''owner''
         then Respond (Response 403 (Message ''Forbidden - Owner access required''))
         else Next req)"

section \<open>Strings\<close>

text \<open>
  What the template strings of the handlers need: a number printed in decimal, a
  \<^verbatim>\<open>decimal(10, 2)\<close> value as the driver returns it, \<^verbatim>\<open>toUpperCase\<close> (on the
  ASCII letters; other characters are left as they are).  \<open>replace_first\<close> above
  is \<^verbatim>\<open>replace\<close> with a string pattern: the first occurrence only.
\<close>

definition digit_char :: "nat \<Rightarrow> char" where
  "digit_char n = ''0123456789'' ! n"

function string_of_nat :: "nat \<Rightarrow> string" where
  "string_of_nat n =
     (if n < 10 then [digit_char n] else string_of_nat (n div 10) @ [digit_char (n mod 10)])"
  by pat_completeness auto
termination
  by (relation "measure (\<lambda>n. n)") auto

definition string_of_int :: "int \<Rightarrow> string" where
  "string_of_int i = (if i < 0 then CHR ''-'' # string_of_nat (nat (- i)) else string_of_nat (nat i))"

definition decimal_text :: "int \<Rightarrow> string" where
  "decimal_text hundredths =
     (let n = nat \<bar>hundredths\<bar>
      in (if hundredths < 0 then ''-'' else [])
         @ string_of_nat (n div 100) @ ''.''
         @ [digit_char (n mod 100 div 10), digit_char (n mod 10)])"

definition toUpperCase :: "string \<Rightarrow> string" where
  "toUpperCase str =
     map (\<lambda>ch. if 97 \<le> (of_char ch :: nat) \<and> (of_char ch :: nat) \<le> 122
               then char_of ((of_char ch :: nat) - 32) else ch) str"


section \<open>Donation controller\<close>

subsection \<open>Validation\<close>

text \<open>
  \<^verbatim>\<open>insertDonationSchema.omit({ userId: true, status: true }).parse(req.body)\<close>.
  The schema is generated from the table: \<open>amount\<close> is a required string refined
  by \<^verbatim>\<open>parseFloat(val) > 0\<close>, \<open>paymentMethod\<close> one of five strings, the three
  nullable text columns are optional, \<open>id\<close> is an optional integer and
  \<open>createdAt\<close> an optional \<^verbatim>\<open>Date\<close>, which JSON cannot hold.  Unknown keys are
  dropped.  \<open>parseFloat\<close> is the built-in of the language, a parameter here: the
  number a string starts with, \<open>None\<close> for \<^verbatim>\<open>NaN\<close>.
\<close>

definition payment_methods :: "string list" where
  "payment_methods = [''credit_card'', ''debit_card'', ''paypal'', ''esewa'', ''bank_qr'']"

record donation_data =
  dd_amount :: string
  dd_paymentMethod :: string
  dd_transactionId :: "string option"
  dd_qrImageUrl :: "string option"
  dd_esewaReference :: "string option"

definition amount_issues :: "(string \<Rightarrow> rat option) \<Rightarrow> jsval \<Rightarrow> string list" where
  "amount_issues parseFloat v =
     (case v of
        JStr val \<Rightarrow>
          (case parseFloat val of
             None \<Rightarrow> [''Amount must be greater than 0'']
           | Some x \<Rightarrow> if x > 0 then [] else [''Amount must be greater than 0''])
      | JUndefined \<Rightarrow> [''Required'']
      | _ \<Rightarrow> [''Expected string''])"

definition method_issues :: "jsval \<Rightarrow> string list" where
  "method_issues v =
     (case v of
        JStr m \<Rightarrow> if m \<in> set payment_methods then [] else [''Invalid enum value'']
      | JUndefined \<Rightarrow> [''Required'']
      | _ \<Rightarrow> [''Invalid enum value''])"

definition optional_text_issues :: "jsval \<Rightarrow> string list" where
  "optional_text_issues v = (if text_null_ok v then [] else [''Expected string''])"

definition optional_text :: "jsval \<Rightarrow> string option" where
  "optional_text v = (case v of JStr str \<Rightarrow> Some str | _ \<Rightarrow> None)"

definition parse_donation :: "(string \<Rightarrow> rat option) \<Rightarrow> body \<Rightarrow> error + donation_data" where
  "parse_donation parseFloat reqBody =
     (let issues =
            (if int_ok (reqBody ''id'') then [] else [''Expected number''])
            @ amount_issues parseFloat (reqBody ''amount'')
            @ method_issues (reqBody ''paymentMethod'')
            @ optional_text_issues (reqBody ''transactionId'')
            @ optional_text_issues (reqBody ''qrImageUrl'')
            @ optional_text_issues (reqBody ''esewaReference'')
            @ (if reqBody ''createdAt'' = JUndefined then [] else [''Expected date''])
      in if issues \<noteq> [] then Inl (ZodError issues)
         else Inr \<lparr>dd_amount = (case reqBody ''amount'' of JStr val \<Rightarrow> val | _ \<Rightarrow> []),
                  dd_paymentMethod = (case reqBody ''paymentMethod'' of JStr m \<Rightarrow> m | _ \<Rightarrow> []),
                  dd_transactionId = optional_text (reqBody ''transactionId''),
                  dd_qrImageUrl = optional_text (reqBody ''qrImageUrl''),
                  dd_esewaReference = optional_text (reqBody ''esewaReference'')\<rparr>)"

subsection \<open>Creating a donation\<close>

text \<open>
  The branch on the payment method.  \<open>clock k\<close> is the \<open>k\<close>-th reading of
  \<^verbatim>\<open>Date.now()\<close> in the request and \<open>random\<close> is
  \<^verbatim>\<open>Math.floor(Math.random() * 1000)\<close>.  \<^verbatim>\<open>req.body.bankName?.toUpperCase()\<close>
  throws when \<open>bankName\<close> is truthy and not a string.
\<close>

definition payment_details ::
  "(nat \<Rightarrow> int) \<Rightarrow> nat \<Rightarrow> body \<Rightarrow> donation_data \<Rightarrow> error + (string \<times> donation_data)" where
  "payment_details clock random reqBody donationData =
     (if dd_paymentMethod donationData = ''esewa'' then
        Inr (''pending'',
             if truthy (reqBody ''esewaId'')
             then donationData\<lparr>dd_esewaReference :=
                    Some (''ESEWA-'' @ string_of_int (clock 0) @ ''-'' @ string_of_nat random)\<rparr>
             else donationData)
      else if dd_paymentMethod donationData = ''bank_qr'' then
        (if truthy (reqBody ''bankName'') then
           (case reqBody ''bankName'' of
              JStr bankName \<Rightarrow>
                Inr (''pending'',
                     donationData\<lparr>dd_qrImageUrl :=
                         Some (''https://example.com/qr-codes/church-donation-''
                               @ string_of_int (clock 0) @ ''.png''),
                       dd_transactionId :=
                         Some (''BANK-'' @ toUpperCase bankName @ ''-'' @ string_of_int (clock 1))\<rparr>)
            | _ \<Rightarrow> Inl TypeError)
         else Inr (''pending'', donationData))
      else Inr (''completed'', donationData))"

text \<open>\<^verbatim>\<open>x || null\<close> on an optional string: the empty string is falsy too.\<close>

definition or_null :: "string option \<Rightarrow> string option" where
  "or_null x = (case x of None \<Rightarrow> None | Some str \<Rightarrow> if str = [] then None else Some str)"

text \<open>
  \<^verbatim>\<open>storage.createDonation\<close>: one insert.  \<open>numeric\<close> is the database's reading
  of the amount text as \<^verbatim>\<open>decimal(10, 2)\<close>, in hundredths, \<open>None\<close> when it
  refuses the text; the user reference must exist.
\<close>

definition createDonation ::
  "(string \<Rightarrow> int option) \<Rightarrow> int \<Rightarrow> string \<Rightarrow> string \<Rightarrow> string option \<Rightarrow> string option
     \<Rightarrow> string option \<Rightarrow> int \<Rightarrow> string \<Rightarrow> db \<Rightarrow> error + (donation \<times> db)" where
  "createDonation numeric now amount paymentMethod transactionId qrImageUrl esewaReference
       userId donationStatus s =
     (case numeric amount of
        None \<Rightarrow> Inl DbError
      | Some hundredths \<Rightarrow>
          if getUserById userId s = None then Inl DbError
          else
            (let newDonation =
                   \<lparr>d_id = donations_seq s, d_userId = userId, d_amount = hundredths,
                    d_paymentMethod = paymentMethod, d_transactionId = transactionId,
                    d_qrImageUrl = qrImageUrl, d_esewaReference = esewaReference,
                    d_status = donationStatus, d_createdAt = now\<rparr>
             in Inr (newDonation,
                     s\<lparr>donations := donations s @ [newDonation],
                       donations_seq := donations_seq s + 1\<rparr>)))"

text \<open>\<^verbatim>\<open>POST /donations\<close>, behind \<open>authenticateJWT\<close>.\<close>

definition create_donation ::
  "(string \<Rightarrow> rat option) \<Rightarrow> (string \<Rightarrow> int option) \<Rightarrow> (nat \<Rightarrow> int) \<Rightarrow> nat \<Rightarrow> int
     \<Rightarrow> body \<Rightarrow> identity option \<Rightarrow> db \<Rightarrow> response \<times> db" where
  "create_donation parseFloat numeric clock random now reqBody reqUser s =
     (case reqUser of
        None \<Rightarrow> (Response 401 (Message ''Unauthorized - Authentication required''), s)
      | Some ident \<Rightarrow>
         (case parse_donation parseFloat reqBody of
            Inl (ZodError issues) \<Rightarrow> (Response 400 (ValidationMessage issues), s)
          | Inl err \<Rightarrow>
              (Response 500 (Message ''An error occurred while processing your donation''), s)
          | Inr donationData \<Rightarrow>
             (case payment_details clock random reqBody donationData of
                Inl err \<Rightarrow>
                  (Response 500 (Message ''An error occurred while processing your donation''), s)
              | Inr (donationStatus, donationDetails) \<Rightarrow>
                 (case createDonation numeric now (dd_amount donationDetails)
                         (dd_paymentMethod donationDetails)
                         (or_null (dd_transactionId donationDetails))
                         (or_null (dd_qrImageUrl donationDetails))
                         (or_null (dd_esewaReference donationDetails))
                         (i_id ident) donationStatus s of
                    Inl err \<Rightarrow>
                      (Response 500
                         (Message ''An error occurred while processing your donation''), s)
                  | Inr (newDonation, s1) \<Rightarrow>
                      (Response 201 (DonationJson newDonation),
                       logActivity now (Some (i_id ident)) ''donation''
                         (''Made a donation of $'' @ decimal_text (d_amount newDonation)
                          @ '' using ''
                          @ replace_first CHR ''_'' CHR '' '' (dd_paymentMethod donationData))
                         s1)))))"

subsection \<open>Donation history\<close>

text \<open>
  \<^verbatim>\<open>parseInt(req.query.page) || 1\<close>: the default also replaces 0.  A negative
  \<^verbatim>\<open>limit\<close> or \<^verbatim>\<open>offset\<close> is an error of the database.  Rows with equal
  \<open>createdAt\<close> are kept in table order.
\<close>

definition or_default :: "int option \<Rightarrow> int \<Rightarrow> int" where
  "or_default parsed dflt = (case parsed of None \<Rightarrow> dflt | Some n \<Rightarrow> if n = 0 then dflt else n)"

definition getDonationsByUserId :: "int \<Rightarrow> int \<Rightarrow> int \<Rightarrow> db \<Rightarrow> error + (donation list \<times> int)" where
  "getDonationsByUserId userId page perPage s =
     (let offset = (page - 1) * perPage;
          matching = filter (\<lambda>d. d_userId d = userId) (donations s)
      in if perPage < 0 \<or> offset < 0 then Inl DbError
         else Inr (take (nat perPage) (drop (nat offset)
                     (sort_key (\<lambda>d. - d_createdAt d) matching)),
                   int (length matching)))"

definition donation_history :: "int option \<Rightarrow> int option \<Rightarrow> identity option \<Rightarrow> db \<Rightarrow> response" where
  "donation_history pageParam perPageParam reqUser s =
     (case reqUser of
        None \<Rightarrow> Response 401 (Message ''Unauthorized - Authentication required'')
      | Some ident \<Rightarrow>
         (let page = or_default pageParam 1;
              perPage = or_default perPageParam 10
          in case getDonationsByUserId (i_id ident) page perPage s of
               Inl err \<Rightarrow>
                 Response 500 (Message ''An error occurred while fetching your donation history'')
             | Inr (donations_page, total_count) \<Rightarrow>
                 Response 200 (DonationList donations_page)))"

subsection \<open>Donation summary endpoint\<close>

text \<open>
  \<^verbatim>\<open>GET /admin/donations/summary\<close>.  \<open>fmt\<close> is the module format the server is
  built to; the handler calls \<^verbatim>\<open>storage.getDonationSummary(period)\<close>, whose body
  sees the \<^verbatim>\<open>this\<close> of its module.
\<close>

definition donation_summary :: "module_format \<Rightarrow> int \<Rightarrow> string option \<Rightarrow> db \<Rightarrow> response" where
  "donation_summary fmt today periodParam s =
     (let period = (case periodParam of
                      None \<Rightarrow> ''all_time''
                    | Some p \<Rightarrow> if p = [] then ''all_time'' else p)
      in case getDonationSummary (module_this fmt) today period (donations s) of
           Inl err \<Rightarrow> Response 500 (Message ''An error occurred while fetching donation summary'')
         | Inr result \<Rightarrow> Response 200 (SummaryJson result))"

subsection \<open>Updating a donation\<close>

definition getDonationById :: "int \<Rightarrow> db \<Rightarrow> donation option" where
  "getDonationById i s = find (\<lambda>d. d_id d = i) (donations s)"

definition amount_ok :: "(string \<Rightarrow> int option) \<Rightarrow> jsval \<Rightarrow> bool" where
  "amount_ok numeric v =
     (case v of JUndefined \<Rightarrow> True | JStr a \<Rightarrow> numeric a \<noteq> None | _ \<Rightarrow> False)"

definition amount_val :: "(string \<Rightarrow> int option) \<Rightarrow> jsval \<Rightarrow> int \<Rightarrow> int" where
  "amount_val numeric v old =
     (case v of
        JStr a \<Rightarrow> (case numeric a of None \<Rightarrow> old | Some hundredths \<Rightarrow> hundredths)
      | _ \<Rightarrow> old)"

definition donation_columns :: "string list" where
  "donation_columns = [''id'', ''userId'', ''amount'', ''paymentMethod'', ''transactionId'',
                       ''qrImageUrl'', ''esewaReference'', ''status'', ''createdAt'']"

definition donation_set_ok :: "(string \<Rightarrow> int option) \<Rightarrow> body \<Rightarrow> bool" where
  "donation_set_ok numeric data =
     (int_ok (data ''id'') \<and> int_ok (data ''userId'') \<and> amount_ok numeric (data ''amount'')
      \<and> text_ok (data ''paymentMethod'') \<and> text_null_ok (data ''transactionId'')
      \<and> text_null_ok (data ''qrImageUrl'') \<and> text_null_ok (data ''esewaReference'')
      \<and> text_ok (data ''status'') \<and> timestamp_ok (data ''createdAt''))"

definition donation_set :: "(string \<Rightarrow> int option) \<Rightarrow> body \<Rightarrow> donation \<Rightarrow> donation" where
  "donation_set numeric data d =
     \<lparr>d_id = int_val (data ''id'') (d_id d),
      d_userId = int_val (data ''userId'') (d_userId d),
      d_amount = amount_val numeric (data ''amount'') (d_amount d),
      d_paymentMethod = text_val (data ''paymentMethod'') (d_paymentMethod d),
      d_transactionId = text_null_val (data ''transactionId'') (d_transactionId d),
      d_qrImageUrl = text_null_val (data ''qrImageUrl'') (d_qrImageUrl d),
      d_esewaReference = text_null_val (data ''esewaReference'') (d_esewaReference d),
      d_status = text_val (data ''status'') (d_status d),
      d_createdAt = d_createdAt d\<rparr>"

definition updateDonation ::
  "(string \<Rightarrow> int option) \<Rightarrow> int \<Rightarrow> body \<Rightarrow> db \<Rightarrow> error + (donation list \<times> db)" where
  "updateDonation numeric i data s =
     (let ds = map (\<lambda>d. if d_id d = i then donation_set numeric data d else d) (donations s)
      in if \<not> has_value donation_columns data \<or> \<not> donation_set_ok numeric data then Inl DbError
         else if \<not> distinct (map d_id ds)
                 \<or> list_ex (\<lambda>d. getUserById (d_userId d) s = None) ds then Inl DbError
         else Inr (map (donation_set numeric data) (filter (\<lambda>d. d_id d = i) (donations s)),
                   s\<lparr>donations := ds\<rparr>))"

text \<open>
  What a template string prints for a value that \<open>set\<close> accepted for a text column:
  the string itself, or \<^verbatim>\<open>undefined\<close> when the key is absent.
\<close>

definition template_text :: "jsval \<Rightarrow> string" where
  "template_text v = (case v of JStr str \<Rightarrow> str | _ \<Rightarrow> ''undefined'')"

text \<open>\<^verbatim>\<open>PATCH /admin/donations/:id\<close>.\<close>

definition update_donation ::
  "(string \<Rightarrow> int option) \<Rightarrow> int \<Rightarrow> int option \<Rightarrow> body \<Rightarrow> identity option \<Rightarrow> db \<Rightarrow> response \<times> db" where
  "update_donation numeric now idParam reqBody reqUser s =
     (case idParam of
        None \<Rightarrow> (Response 400 (Message ''Invalid donation ID''), s)
      | Some donationId \<Rightarrow>
         (case getDonationById donationId s of
            None \<Rightarrow> (Response 404 (Message ''Donation not found''), s)
          | Some found \<Rightarrow>
             (let updateData = pick_allowed [''status''] reqBody empty_body
              in case updateDonation numeric donationId updateData s of
                   Inl err \<Rightarrow>
                     (Response 500 (Message ''An error occurred while updating the donation''), s)
                 | Inr (rows, s1) \<Rightarrow>
                    (let s2 = logActivity now (map_option i_id reqUser) ''donation''
                                (''Updated donation status to ''
                                 @ template_text (updateData ''status'')
                                 @ '': Donation ID '' @ string_of_int donationId) s1
                     in case rows of
                          [] \<Rightarrow> (Response 200 NoBody, s2)
                        | updatedDonation # _ \<Rightarrow>
                            (Response 200 (DonationJson updatedDonation), s2)))))"

section \<open>Contact controller\<close>

definition getContactById :: "int \<Rightarrow> db \<Rightarrow> contact option" where
  "getContactById i s = find (\<lambda>c. c_id c = i) (contacts s)"

definition contact_columns :: "string list" where
  "contact_columns = [''id'', ''name'', ''email'', ''message'', ''status'', ''responseMessage'',
                      ''responseDate'', ''createdAt'']"

definition contact_set_ok :: "body \<Rightarrow> bool" where
  "contact_set_ok data =
     (int_ok (data ''id'') \<and> text_ok (data ''name'') \<and> text_ok (data ''email'')
      \<and> text_ok (data ''message'') \<and> text_ok (data ''status'')
      \<and> text_null_ok (data ''responseMessage'') \<and> timestamp_ok (data ''responseDate'')
      \<and> timestamp_ok (data ''createdAt''))"

definition contact_set :: "body \<Rightarrow> contact \<Rightarrow> contact" where
  "contact_set data c =
     \<lparr>c_id = int_val (data ''id'') (c_id c),
      c_name = text_val (data ''name'') (c_name c),
      c_email = text_val (data ''email'') (c_email c),
      c_message = text_val (data ''message'') (c_message c),
      c_status = text_val (data ''status'') (c_status c),
      c_responseMessage = text_null_val (data ''responseMessage'') (c_responseMessage c),
      c_responseDate = c_responseDate c,
      c_createdAt = c_createdAt c\<rparr>"

definition updateContact :: "int \<Rightarrow> body \<Rightarrow> db \<Rightarrow> error + (contact list \<times> db)" where
  "updateContact i data s =
     (let cs = map (\<lambda>c. if c_id c = i then contact_set data c else c) (contacts s)
      in if \<not> has_value contact_columns data \<or> \<not> contact_set_ok data then Inl DbError
         else if \<not> distinct (map c_id cs) then Inl DbError
         else Inr (map (contact_set data) (filter (\<lambda>c. c_id c = i) (contacts s)),
                   s\<lparr>contacts := cs\<rparr>))"

text \<open>\<^verbatim>\<open>PATCH /admin/contacts/:id\<close>.\<close>

definition update_contact ::
  "int \<Rightarrow> int option \<Rightarrow> body \<Rightarrow> identity option \<Rightarrow> db \<Rightarrow> response \<times> db" where
  "update_contact now idParam reqBody reqUser s =
     (case idParam of
        None \<Rightarrow> (Response 400 (Message ''Invalid contact ID''), s)
      | Some contactId \<Rightarrow>
         (case getContactById contactId s of
            None \<Rightarrow> (Response 404 (Message ''Contact not found''), s)
          | Some found \<Rightarrow>
             (let updateData = pick_allowed [''status''] reqBody empty_body
              in case updateContact contactId updateData s of
                   Inl err \<Rightarrow>
                     (Response 500 (Message ''An error occurred while updating the contact''), s)
                 | Inr (rows, s1) \<Rightarrow>
                    (let s2 = logActivity now (map_option i_id reqUser) ''contact_message''
                                (''Updated contact status to ''
                                 @ template_text (updateData ''status'')
                                 @ '': Contact from '' @ c_email found) s1
                     in case rows of
                          [] \<Rightarrow> (Response 200 NoBody, s2)
                        | updatedContact # _ \<Rightarrow>
                            (Response 200 (ContactJson updatedContact), s2)))))"

section \<open>Event and sermon controllers\<close>

definition getMediaById :: "int \<Rightarrow> db \<Rightarrow> media option" where
  "getMediaById i s = find (\<lambda>m. m_id m = i) (media_rows s)"

definition getEventById :: "int \<Rightarrow> db \<Rightarrow> event option" where
  "getEventById i s = find (\<lambda>e. e_id e = i) (events s)"

definition event_columns :: "string list" where
  "event_columns = [''id'', ''title'', ''description'', ''date'', ''mediaId'', ''createdAt'']"

definition event_set_ok :: "body \<Rightarrow> bool" where
  "event_set_ok data =
     (int_ok (data ''id'') \<and> text_ok (data ''title'') \<and> text_ok (data ''description'')
      \<and> timestamp_ok (data ''date'') \<and> int_null_ok (data ''mediaId'')
      \<and> timestamp_ok (data ''createdAt''))"

definition event_set :: "body \<Rightarrow> event \<Rightarrow> event" where
  "event_set data e =
     \<lparr>e_id = int_val (data ''id'') (e_id e),
      e_title = text_val (data ''title'') (e_title e),
      e_description = text_val (data ''description'') (e_description e),
      e_date = e_date e,
      e_mediaId = int_null_val (data ''mediaId'') (e_mediaId e),
      e_createdAt = e_createdAt e\<rparr>"

text \<open>\<open>events.mediaId\<close> and \<open>sermons.mediaId\<close> are references to \<open>media.id\<close>.\<close>

definition updateEvent :: "int \<Rightarrow> body \<Rightarrow> db \<Rightarrow> error + (event list \<times> db)" where
  "updateEvent i data s =
     (let es = map (\<lambda>e. if e_id e = i then event_set data e else e) (events s)
      in if \<not> has_value event_columns data \<or> \<not> event_set_ok data then Inl DbError
         else if \<not> distinct (map e_id es)
                 \<or> list_ex (\<lambda>e. case e_mediaId e of
                                   None \<Rightarrow> False
                                 | Some m \<Rightarrow> getMediaById m s = None) es then Inl DbError
         else Inr (map (event_set data) (filter (\<lambda>e. e_id e = i) (events s)),
                   s\<lparr>events := es\<rparr>))"

text \<open>
  \<^verbatim>\<open>PATCH /events/:id\<close>, behind \<open>authenticateJWT\<close>: \<^verbatim>\<open>req.body\<close> itself is the
  argument of \<open>updateEvent\<close>.
\<close>

definition update_event ::
  "int \<Rightarrow> int option \<Rightarrow> body \<Rightarrow> identity option \<Rightarrow> db \<Rightarrow> response \<times> db" where
  "update_event now idParam reqBody reqUser s =
     (case reqUser of
        None \<Rightarrow> (Response 401 (Message ''Unauthorized - Authentication required''), s)
      | Some ident \<Rightarrow>
         (case idParam of
            None \<Rightarrow> (Response 400 (Message ''Invalid event ID''), s)
          | Some eventId \<Rightarrow>
             (case getEventById eventId s of
                None \<Rightarrow> (Response 404 (Message ''Event not found''), s)
              | Some found \<Rightarrow>
                 (case updateEvent eventId reqBody s of
                    Inl err \<Rightarrow>
                      (Response 500 (Message ''An error occurred while updating the event''), s)
                  | Inr (rows, s1) \<Rightarrow>
                     (case rows of
                        [] \<Rightarrow> (Response 500
                                (Message ''An error occurred while updating the event''), s1)
                      | updatedEvent # _ \<Rightarrow>
                          (Response 200 (EventJson updatedEvent),
                           logActivity now (Some (i_id ident)) ''event_update''
                             (''Updated event: '' @ e_title updatedEvent) s1))))))"

definition getSermonById :: "int \<Rightarrow> db \<Rightarrow> sermon option" where
  "getSermonById i s = find (\<lambda>x. s_id x = i) (sermons s)"

definition sermon_columns :: "string list" where
  "sermon_columns = [''id'', ''title'', ''description'', ''date'', ''mediaId'', ''duration'', ''createdAt'']"

definition sermon_set_ok :: "body \<Rightarrow> bool" where
  "sermon_set_ok data =
     (int_ok (data ''id'') \<and> text_ok (data ''title'') \<and> text_ok (data ''description'')
      \<and> timestamp_ok (data ''date'') \<and> int_ok (data ''mediaId'')
      \<and> text_ok (data ''duration'') \<and> timestamp_ok (data ''createdAt''))"

definition sermon_set :: "body \<Rightarrow> sermon \<Rightarrow> sermon" where
  "sermon_set data x =
     \<lparr>s_id = int_val (data ''id'') (s_id x),
      s_title = text_val (data ''title'') (s_title x),
      s_description = text_val (data ''description'') (s_description x),
      s_date = s_date x,
      s_mediaId = int_val (data ''mediaId'') (s_mediaId x),
      s_duration = text_val (data ''duration'') (s_duration x),
      s_createdAt = s_createdAt x\<rparr>"

definition updateSermon :: "int \<Rightarrow> body \<Rightarrow> db \<Rightarrow> error + (sermon list \<times> db)" where
  "updateSermon i data s =
     (let xs = map (\<lambda>x. if s_id x = i then sermon_set data x else x) (sermons s)
      in if \<not> has_value sermon_columns data \<or> \<not> sermon_set_ok data then Inl DbError
         else if \<not> distinct (map s_id xs)
                 \<or> list_ex (\<lambda>x. getMediaById (s_mediaId x) s = None) xs then Inl DbError
         else Inr (map (sermon_set data) (filter (\<lambda>x. s_id x = i) (sermons s)),
                   s\<lparr>sermons := xs\<rparr>))"

text \<open>\<^verbatim>\<open>PATCH /sermons/:id\<close>, behind \<open>authenticateJWT\<close>, for the owner role only.\<close>

definition update_sermon ::
  "int \<Rightarrow> int option \<Rightarrow> body \<Rightarrow> identity option \<Rightarrow> db \<Rightarrow> response \<times> db" where
  "update_sermon now idParam reqBody reqUser s =
     (case reqUser of
        None \<Rightarrow> (Response 401 (Message ''Unauthorized - Authentication required''), s)
      | Some ident \<Rightarrow>
         if i_role ident \<noteq> ''owner''
         then (Response 403 (Message ''Only the owner can update sermons''), s)
         else
           (case idParam of
              None \<Rightarrow> (Response 400 (Message ''Invalid sermon ID''), s)
            | Some sermonId \<Rightarrow>
               (case getSermonById sermonId s of
                  None \<Rightarrow> (Response 404 (Message ''Sermon not found''), s)
                | Some found \<Rightarrow>
                   (case updateSermon sermonId reqBody s of
                      Inl err \<Rightarrow>
                        (Response 500 (Message ''An error occurred while updating the sermon''), s)
                    | Inr (rows, s1) \<Rightarrow>
                       (case rows of
                          [] \<Rightarrow> (Response 500
                                  (Message ''An error occurred while updating the sermon''), s1)
                        | updatedSermon # _ \<Rightarrow>
                            (Response 200 (SermonJson updatedSermon),
                             logActivity now (Some (i_id ident)) ''sermon_update''
                               (''Updated sermon: '' @ s_title updatedSermon) s1))))))"

section \<open>Media controller\<close>

subsection \<open>The upload middleware\<close>

text \<open>
  \<^verbatim>\<open>upload.single("mediaFile")\<close> with the options of the source.  The request
  carries at most one file part; of a file the model keeps the MIME type and the
  size in bytes.  The filter is asked when the part starts, the size limit is
  reached while the part is read; either error goes to \<^verbatim>\<open>next(err)\<close>, and the
  route handler is not called.
\<close>

record upload_file =
  f_mimetype :: string
  f_size :: nat

definition fileSizeLimit :: nat where
  "fileSizeLimit = 10 * 1024 * 1024"

definition fileFilter :: "upload_file \<Rightarrow> bool" where
  "fileFilter file =
     (take 6 (f_mimetype file) = ''image/'' \<or> take 6 (f_mimetype file) = ''video/'')"

datatype multer_outcome = MulterError string | MulterNext "upload_file option"

definition upload_single :: "upload_file option \<Rightarrow> multer_outcome" where
  "upload_single part =
     (case part of
        None \<Rightarrow> MulterNext None
      | Some file \<Rightarrow>
          if \<not> fileFilter file then MulterError ''Only images and videos are allowed''
          else if f_size file > fileSizeLimit then MulterError ''File too large''
          else MulterNext (Some file))"

subsection \<open>The asset store\<close>

text \<open>
  \<open>uploadToCloudinary\<close> of \<^verbatim>\<open>utils/cloudinary.ts\<close>: it throws when the
  credentials are not configured, and otherwise returns or throws what the remote
  \<^verbatim>\<open>cloudinary.uploader.upload\<close> does, a parameter here.  An empty
  \<open>secure_url\<close> stands for a result without one.
\<close>

record cloud_result =
  secure_url :: string
  public_id :: string

definition uploadToCloudinary ::
  "bool \<Rightarrow> (upload_file \<Rightarrow> string \<Rightarrow> error + cloud_result) \<Rightarrow> upload_file \<Rightarrow> string
     \<Rightarrow> error + cloud_result" where
  "uploadToCloudinary configured uploader file resourceType =
     (if \<not> configured then Inl CloudinaryError else uploader file resourceType)"

subsection \<open>Uploading\<close>

text \<open>
  \<^verbatim>\<open>insertMediaSchema.parse(mediaData)\<close>: the title is a string of at least two
  characters, the type one of two strings, the description an optional text; the URL
  and the asset id come from the remote result and the uploader from \<^verbatim>\<open>req.user\<close>.
\<close>

definition media_issues :: "body \<Rightarrow> string list" where
  "media_issues reqBody =
     (case reqBody ''title'' of
        JStr title \<Rightarrow> if length title < 2 then [''Title must be at least 2 characters''] else []
      | _ \<Rightarrow> [''Expected string''])
     @ (if reqBody ''type'' = JStr ''image'' \<or> reqBody ''type'' = JStr ''video'' then []
        else [''Invalid enum value''])
     @ (if text_null_ok (reqBody ''description'') then [] else [''Expected string''])"

definition createMedia ::
  "int \<Rightarrow> string \<Rightarrow> string \<Rightarrow> string \<Rightarrow> string \<Rightarrow> string option \<Rightarrow> int \<Rightarrow> db
     \<Rightarrow> error + (media \<times> db)" where
  "createMedia now cloudinaryUrl cloudinaryPublicId mediaType title description uploadedBy s =
     (if getUserById uploadedBy s = None then Inl DbError
      else
        (let newMedia =
               \<lparr>m_id = media_seq s, m_cloudinaryUrl = cloudinaryUrl,
                m_cloudinaryPublicId = cloudinaryPublicId, m_type = mediaType,
                m_title = title, m_description = description, m_uploadedBy = uploadedBy,
                m_createdAt = now\<rparr>
         in Inr (newMedia,
                 s\<lparr>media_rows := media_rows s @ [newMedia], media_seq := media_seq s + 1\<rparr>)))"

text \<open>
  The handler of \<^verbatim>\<open>POST /admin/media\<close>.  Besides the response and the database it
  returns the calls of \<open>uploadToCloudinary\<close> it made, each with the file and the
  resource type.  \<^verbatim>\<open>description = ""\<close> is the default of the destructuring.
\<close>

definition upload_media ::
  "bool \<Rightarrow> (upload_file \<Rightarrow> string \<Rightarrow> error + cloud_result) \<Rightarrow> int \<Rightarrow> upload_file option
     \<Rightarrow> body \<Rightarrow> identity option \<Rightarrow> db \<Rightarrow> response \<times> db \<times> (upload_file \<times> string) list" where
  "upload_media configured uploader now reqFile reqBody reqUser s =
     (case reqUser of
        None \<Rightarrow> (Response 401 (Message ''Not authenticated''), s, [])
      | Some ident \<Rightarrow>
         (case reqFile of
            None \<Rightarrow> (Response 400 (Message ''No file uploaded''), s, [])
          | Some file \<Rightarrow>
             if \<not> truthy (reqBody ''title'') \<or> \<not> truthy (reqBody ''type'')
             then (Response 400 (Message ''Title and type are required''), s, [])
             else
               (let mediaType = (if reqBody ''type'' = JStr ''image'' then ''image'' else ''video'');
                    described = (if reqBody ''description'' = JUndefined
                                 then reqBody(''description'' := JStr [])
                                 else reqBody);
                    calls = [(file, mediaType)]
                in case uploadToCloudinary configured uploader file mediaType of
                     Inl err \<Rightarrow> (Response 500 (UploadFailure err), s, calls)
                   | Inr result \<Rightarrow>
                      if secure_url result = []
                      then (Response 500 (Message ''Failed to upload file to Cloudinary''),
                            s, calls)
                      else if media_issues described \<noteq> []
                      then (Response 400 (ValidationMessage (media_issues described)), s, calls)
                      else
                        (case createMedia now (secure_url result) (public_id result)
                                (template_text (reqBody ''type''))
                                (template_text (reqBody ''title''))
                                (optional_text (described ''description''))
                                (i_id ident) s of
                           Inl err \<Rightarrow> (Response 500 (UploadFailure err), s, calls)
                         | Inr (newMedia, s1) \<Rightarrow>
                             (Response 201 (MediaJson newMedia),
                              logActivity now (Some (i_id ident)) ''media_upload''
                                (''Uploaded '' @ template_text (reqBody ''type'') @ '': ''
                                 @ template_text (reqBody ''title'')) s1,
                              calls)))))"

text \<open>
  The route as \<^verbatim>\<open>routes.ts\<close> and the controller compose it:
  \<open>authenticateJWT\<close>, \<open>isOwner\<close>, the upload middleware, the handler.  An error
  given to \<^verbatim>\<open>next\<close> leaves the route for the error handling of the application.
\<close>

datatype route_outcome = Sent response | PassedToErrorHandler string

definition upload_media_route ::
  "bool \<Rightarrow> (upload_file \<Rightarrow> string \<Rightarrow> error + cloud_result) \<Rightarrow> int \<Rightarrow> request
     \<Rightarrow> upload_file option \<Rightarrow> body \<Rightarrow> db
     \<Rightarrow> route_outcome \<times> db \<times> (upload_file \<times> string) list" where
  "upload_media_route configured uploader now req part reqBody s =
     (case authenticateJWT req of
        Respond r \<Rightarrow> (Sent r, s, [])
      | Next req1 \<Rightarrow>
         (case isOwner req1 of
            Respond r \<Rightarrow> (Sent r, s, [])
          | Next req2 \<Rightarrow>
             (case upload_single part of
                MulterError msg \<Rightarrow> (PassedToErrorHandler msg, s, [])
              | MulterNext reqFile \<Rightarrow>
                 (case upload_media configured uploader now reqFile reqBody (req_user req2) s of
                    (r, s1, calls) \<Rightarrow> (Sent r, s1, calls)))))"

subsection \<open>Updating\<close>

definition media_columns :: "string list" where
  "media_columns = [''id'', ''cloudinaryUrl'', ''cloudinaryPublicId'', ''type'', ''title'',
                    ''description'', ''uploadedBy'', ''createdAt'']"

definition media_set_ok :: "body \<Rightarrow> bool" where
  "media_set_ok data =
     (int_ok (data ''id'') \<and> text_ok (data ''cloudinaryUrl'')
      \<and> text_ok (data ''cloudinaryPublicId'') \<and> text_ok (data ''type'')
      \<and> text_ok (data ''title'') \<and> text_null_ok (data ''description'')
      \<and> int_ok (data ''uploadedBy'') \<and> timestamp_ok (data ''createdAt''))"

definition media_set :: "body \<Rightarrow> media \<Rightarrow> media" where
  "media_set data m =
     \<lparr>m_id = int_val (data ''id'') (m_id m),
      m_cloudinaryUrl = text_val (data ''cloudinaryUrl'') (m_cloudinaryUrl m),
      m_cloudinaryPublicId = text_val (data ''cloudinaryPublicId'') (m_cloudinaryPublicId m),
      m_type = text_val (data ''type'') (m_type m),
      m_title = text_val (data ''title'') (m_title m),
      m_description = text_null_val (data ''description'') (m_description m),
      m_uploadedBy = int_val (data ''uploadedBy'') (m_uploadedBy m),
      m_createdAt = m_createdAt m\<rparr>"

definition updateMedia :: "int \<Rightarrow> body \<Rightarrow> db \<Rightarrow> error + (media list \<times> db)" where
  "updateMedia i data s =
     (let ms = map (\<lambda>m. if m_id m = i then media_set data m else m) (media_rows s)
      in if \<not> has_value media_columns data \<or> \<not> media_set_ok data then Inl DbError
         else if \<not> distinct (map m_id ms)
                 \<or> list_ex (\<lambda>m. getUserById (m_uploadedBy m) s = None) ms then Inl DbError
         else Inr (map (media_set data) (filter (\<lambda>m. m_id m = i) (media_rows s)),
                   s\<lparr>media_rows := ms\<rparr>))"

text \<open>
  \<^verbatim>\<open>PATCH /admin/media/:id\<close>.  \<^verbatim>\<open>updateData.title || media.title\<close> in the log
  line: the new title when one was written and is not empty.
\<close>

definition update_media ::
  "int \<Rightarrow> int option \<Rightarrow> body \<Rightarrow> identity option \<Rightarrow> db \<Rightarrow> response \<times> db" where
  "update_media now idParam reqBody reqUser s =
     (case reqUser of
        None \<Rightarrow> (Response 401 (Message ''Not authenticated''), s)
      | Some ident \<Rightarrow>
         (case idParam of
            None \<Rightarrow> (Response 400 (Message ''Invalid media ID''), s)
          | Some mediaId \<Rightarrow>
             (case getMediaById mediaId s of
                None \<Rightarrow> (Response 404 (Message ''Media not found''), s)
              | Some found \<Rightarrow>
                 (let updateData = pick_allowed [''title'', ''description''] reqBody empty_body
                  in case updateMedia mediaId updateData s of
                       Inl err \<Rightarrow>
                         (Response 500 (Message ''An error occurred while updating the media''), s)
                     | Inr (rows, s1) \<Rightarrow>
                        (let s2 = logActivity now (Some (i_id ident)) ''media_upload''
                                    (''Updated '' @ m_type found @ '': ''
                                     @ (if truthy (updateData ''title'')
                                        then template_text (updateData ''title'')
                                        else m_title found)) s1
                         in case rows of
                              [] \<Rightarrow> (Response 200 NoBody, s2)
                            | updatedMedia # _ \<Rightarrow> (Response 200 (MediaJson updatedMedia), s2))))))"

section \<open>Example data\<close>

text \<open>
  A small database used to run the handlers: the protected owner, one member, and
  no other rows.  \<open>example_today\<close> is noon of 31 March 2025, local time.
\<close>

definition example_owner :: user where
  "example_owner =
     \<lparr>u_id = 1, u_name = ''Owner'', u_email = ''shahidsingh1432@gmail.com'',
      u_password = ''$2b$10$owner'', u_role = ''owner'', u_status = ''active'',
      u_notificationOptIn = Some True, u_profilePictureUrl = None, u_createdAt = 1700000000000\<rparr>"

definition example_member :: user where
  "example_member =
     \<lparr>u_id = 2, u_name = ''Jane Doe'', u_email = ''jane.doe@example.com'',
      u_password = ''$2b$10$jane'', u_role = ''user'', u_status = ''active'',
      u_notificationOptIn = Some True, u_profilePictureUrl = None, u_createdAt = 1700000000001\<rparr>"

definition example_db :: db where
  "example_db =
     \<lparr>users = [example_owner, example_member], donations = [], media_rows = [], events = [],
      sermons = [], contacts = [], activities = [], donations_seq = 1, media_seq = 1,
      activities_seq = 1\<rparr>"

definition example_today :: int where
  "example_today = 1743422400000"

definition example_donation :: "int \<Rightarrow> int \<Rightarrow> int \<Rightarrow> donation" where
  "example_donation i hundredths t =
     \<lparr>d_id = i, d_userId = 2, d_amount = hundredths, d_paymentMethod = ''paypal'',
      d_transactionId = None, d_qrImageUrl = None, d_esewaReference = None,
      d_status = ''completed'', d_createdAt = t\<rparr>"

definition example_user_at :: "int \<Rightarrow> int \<Rightarrow> user" where
  "example_user_at i t = example_member\<lparr>u_id := i, u_createdAt := t\<rparr>"

text \<open>
  The values of \<^verbatim>\<open>parseFloat\<close> and of the database's reading of an amount on the
  three amount texts the examples use, the body of a donation request, and a clock.
\<close>

definition example_parseFloat :: "string \<Rightarrow> rat option" where
  "example_parseFloat str =
     (if str = ''50'' then Some 50 else if str = ''-5'' then Some (- 5)
      else if str = ''0'' then Some 0 else None)"

definition example_numeric :: "string \<Rightarrow> int option" where
  "example_numeric str =
     (if str = ''50'' then Some 5000 else if str = ''-5'' then Some (- 500)
      else if str = ''0'' then Some 0 else None)"

definition example_donation_body :: "string \<Rightarrow> string \<Rightarrow> body" where
  "example_donation_body amount paymentMethod =
     empty_body(''amount'' := JStr amount, ''paymentMethod'' := JStr paymentMethod)"

definition example_clock :: "nat \<Rightarrow> int" where
  "example_clock k = 1743422400000 + int k"

text \<open>Content rows: one media item, one event and one sermon that show it.\<close>

definition example_media :: media where
  "example_media =
     \<lparr>m_id = 1, m_cloudinaryUrl = ''https://res.cloudinary.com/demo/easter.png'',
      m_cloudinaryPublicId = ''grace_church/easter'', m_type = ''image'', m_title = ''Easter'',
      m_description = None, m_uploadedBy = 1, m_createdAt = 1700000000002\<rparr>"

definition example_event :: event where
  "example_event =
     \<lparr>e_id = 1, e_title = ''Picnic'', e_description = ''Annual church picnic'',
      e_date = 1750000000000, e_mediaId = Some 1, e_createdAt = 1700000000003\<rparr>"

definition example_sermon :: sermon where
  "example_sermon =
     \<lparr>s_id = 1, s_title = ''Hope'', s_description = ''A sermon about hope'',
      s_date = 1740000000000, s_mediaId = 1, s_duration = ''35:20'',
      s_createdAt = 1700000000004\<rparr>"

definition example_content_db :: db where
  "example_content_db =
     example_db\<lparr>media_rows := [example_media], events := [example_event],
                sermons := [example_sermon]\<rparr>"

text \<open>A table of two donations of the member, the older one first.\<close>

definition example_history_db :: db where
  "example_history_db =
     example_db\<lparr>donations := [example_donation 1 5000 1739577600000,
                               example_donation 2 2500 1741564800000]\<rparr>"

text \<open>
  A deactivated user, the table of users with that row added, a request whose
  session cookie holds a given token, and a verifier that accepts three tokens: one
  signed for the member, one for the deactivated user, and one for the id of a user
  that has since been deleted.
\<close>

definition example_inactive :: user where
  "example_inactive =
     \<lparr>u_id = 3, u_name = ''John Roe'', u_email = ''john.roe@example.com'',
      u_password = ''$2b$10$john'', u_role = ''user'', u_status = ''inactive'',
      u_notificationOptIn = None, u_profilePictureUrl = None, u_createdAt = 1700000000005\<rparr>"

definition example_session_db :: db where
  "example_session_db = example_db\<lparr>users := [example_owner, example_member, example_inactive]\<rparr>"

definition example_request :: "string \<Rightarrow> request" where
  "example_request token =
     \<lparr>cookies = Some (\<lambda>k. if k = ''auth_token'' then Some token else None),
      req_user = None\<rparr>"

definition example_jwt_verify :: "string \<Rightarrow> claims option" where
  "example_jwt_verify token =
     (if token = ''token-of-2''
      then Some \<lparr>jwt_id = Some 2, jwt_email = ''jane.doe@example.com'', jwt_role = ''user''\<rparr>
      else if token = ''token-of-3''
      then Some \<lparr>jwt_id = Some 3, jwt_email = ''john.roe@example.com'', jwt_role = ''user''\<rparr>
      else if token = ''token-of-9''
      then Some \<lparr>jwt_id = Some 9, jwt_email = ''gone@example.com'', jwt_role = ''user''\<rparr>
      else None)"

text \<open>An asset store that accepts every upload, and three files.\<close>

definition example_uploader :: "upload_file \<Rightarrow> string \<Rightarrow> error + cloud_result" where
  "example_uploader file resourceType =
     Inr \<lparr>secure_url = ''https://res.cloudinary.com/demo/new.png'',
          public_id = ''grace_church/new''\<rparr>"

definition example_owner_request :: request where
  "example_owner_request = \<lparr>cookies = None, req_user = Some (identity_of example_owner)\<rparr>"

definition example_upload_body :: body where
  "example_upload_body = empty_body(''title'' := JStr ''Easter 2025'', ''type'' := JStr ''image'')"

definition example_big_file :: upload_file where
  "example_big_file = \<lparr>f_mimetype = ''image/png'', f_size = 11534336\<rparr>"

definition example_small_file :: upload_file where
  "example_small_file = \<lparr>f_mimetype = ''image/png'', f_size = 2048\<rparr>"

definition example_text_file :: upload_file where
  "example_text_file = \<lparr>f_mimetype = ''text/plain'', f_size = 2048\<rparr>"

section \<open>Theorems\<close>

subsection \<open>Double arithmetic\<close>

text \<open>
  \<open>double\<close> rounds to a neighbour: \<open>binade\<close> brackets its argument between two
  powers of 2, so the rounding error is at most half a unit in the last place, that
  is the fraction \<open>2\<^sup>-\<^sup>5\<^sup>3\<close> of the value.  A number and its double have the same
  sign, and one is 0 when the other is.
\<close>

lemma round_half_even_near: "\<bar>rat_of_int (round_half_even y) - y\<bar> \<le> 1 / 2"
proof -
  have "of_int \<lfloor>y\<rfloor> \<le> y" "y < of_int \<lfloor>y\<rfloor> + 1" by linarith+
  then show ?thesis
    by (auto simp: round_half_even_def Let_def)
qed

lemma binade_bounds:
  assumes "0 < x"
  shows "2 powi (binade x) \<le> x" and "x < 2 powi (binade x + 1)"
proof -
  have "2 powi (binade x) \<le> x \<and> x < 2 powi (binade x + 1)"
  proof (cases "1 \<le> x")
    case True
    define n where "n = \<lfloor>x\<rfloor>"
    have n: "1 \<le> n" "of_int n \<le> x" "x < of_int n + 1"
      using True by (auto simp: n_def) (linarith+)?
    then have b: "2 ^ nat (bitlen n - 1) \<le> n" "n < 2 ^ nat (bitlen n)"
      using bitlen_bounds [of n] by auto
    have pos: "1 \<le> bitlen n" using n(1) by (simp add: bitlen_ge_iff_power)
    have e: "binade x = bitlen n - 1" using True by (simp add: binade_def n_def)
    have "(2::rat) powi (bitlen n - 1) = of_int (2 ^ nat (bitlen n - 1))"
      using pos by (simp add: power_int_def)
    also have "\<dots> \<le> of_int n" using b(1) by (simp only: of_int_le_iff)
    finally have lo: "(2::rat) powi (bitlen n - 1) \<le> x" using n(2) by linarith
    have "n + 1 \<le> 2 ^ nat (bitlen n)" using b(2) by simp
    then have "rat_of_int (n + 1) \<le> of_int (2 ^ nat (bitlen n))" by (simp only: of_int_le_iff)
    then have "of_int n + 1 \<le> (of_int (2 ^ nat (bitlen n)) :: rat)" by simp
    also have "\<dots> = 2 powi (bitlen n)" using pos by (simp add: power_int_def)
    finally have hi: "x < 2 powi (bitlen n)" using n(3) by linarith
    from lo hi e show ?thesis by simp
  next
    case False
    define y where "y = 1 / x"
    define m where "m = \<lceil>y\<rceil>"
    define k where "k = bitlen (m - 1)"
    have y: "1 < y" using False assms by (simp add: y_def)
    have m: "y \<le> of_int m" "of_int m - 1 < y" "2 \<le> m"
      using y by (auto simp: m_def) (linarith+)?
    then have b: "2 ^ nat (k - 1) \<le> m - 1" "m - 1 < 2 ^ nat k"
      using bitlen_bounds [of "m - 1"] by (auto simp: k_def)
    have pos: "1 \<le> k" using m(3) by (simp add: k_def bitlen_ge_iff_power)
    have e: "binade x = - k" using False by (simp add: binade_def k_def m_def y_def)
    have "m \<le> 2 ^ nat k" using b(2) by simp
    then have "rat_of_int m \<le> of_int (2 ^ nat k)" by (simp only: of_int_le_iff)
    then have "rat_of_int m \<le> 2 ^ nat k" by simp
    then have "y \<le> 2 ^ nat k" using m(1) by linarith
    then have "1 / 2 ^ nat k \<le> x"
      using assms by (simp add: y_def field_simps)
    moreover have "(2::rat) powi (- k) = 1 / 2 ^ nat k"
      using pos by (simp add: power_int_def field_simps)
    ultimately have lo: "(2::rat) powi (- k) \<le> x" by simp
    have "(of_int (2 ^ nat (k - 1)) :: rat) \<le> of_int (m - 1)"
      using b(1) by (simp only: of_int_le_iff)
    then have "(2 ^ nat (k - 1) :: rat) \<le> of_int m - 1" by simp
    then have "2 ^ nat (k - 1) < y" using m(2) by linarith
    then have "x < 1 / 2 ^ nat (k - 1)"
      using assms by (simp add: y_def field_simps)
    moreover have "(2::rat) powi (- k + 1) = 1 / 2 ^ nat (k - 1)"
    proof (cases "k = 1")
      case True then show ?thesis by simp
    next
      case False
      with pos have "- k + 1 < 0" "nat (- (- k + 1)) = nat (k - 1)" by auto
      then show ?thesis by (simp add: power_int_def field_simps)
    qed
    ultimately have hi: "x < 2 powi (- k + 1)" by simp
    from lo hi e show ?thesis by simp
  qed
  then show "2 powi (binade x) \<le> x" and "x < 2 powi (binade x + 1)" by auto
qed


lemma double_scaled:
  assumes "x \<noteq> 0"
  defines "ulp \<equiv> 2 powi (binade \<bar>x\<bar> - 52)"
  shows "0 < ulp" and "2 ^ 52 * ulp \<le> \<bar>x\<bar>" and "double x = of_int (round_half_even (x / ulp)) * ulp"
proof -
  show pos: "0 < ulp" by (simp add: ulp_def)
  have "2 powi (binade \<bar>x\<bar>) \<le> \<bar>x\<bar>" using assms(1) by (intro binade_bounds) simp
  moreover have "(2::rat) powi (binade \<bar>x\<bar>) = 2 ^ 52 * ulp"
    by (simp add: ulp_def power_int_diff)
  ultimately show "2 ^ 52 * ulp \<le> \<bar>x\<bar>" by simp
  show "double x = of_int (round_half_even (x / ulp)) * ulp"
    using assms(1) by (simp add: double_def ulp_def Let_def)
qed

lemma double_error: "\<bar>double x - x\<bar> \<le> \<bar>x\<bar> / 2 ^ 53"
proof (cases "x = 0")
  case True then show ?thesis by (simp add: double_def)
next
  case False
  define ulp :: rat where "ulp = 2 powi (binade \<bar>x\<bar> - 52)"
  have u: "0 < ulp" "2 ^ 52 * ulp \<le> \<bar>x\<bar>" "double x = of_int (round_half_even (x / ulp)) * ulp"
    using double_scaled [OF False] by (simp_all add: ulp_def)
  have "double x - x = (of_int (round_half_even (x / ulp)) - x / ulp) * ulp"
    using u(1,3) by (simp add: field_simps)
  then have "\<bar>double x - x\<bar> = \<bar>of_int (round_half_even (x / ulp)) - x / ulp\<bar> * ulp"
    using u(1) by (simp add: abs_mult)
  also have "\<dots> \<le> (1 / 2) * ulp"
    using round_half_even_near [of "x / ulp"] u(1) by (intro mult_right_mono) simp_all
  also have "\<dots> \<le> \<bar>x\<bar> / 2 ^ 53" using u(2) by simp
  finally show ?thesis .
qed

lemma double_sign: "(double x = 0 \<longleftrightarrow> x = 0) \<and> (0 < double x \<longleftrightarrow> 0 < x)"
proof -
  have "\<bar>double x - x\<bar> \<le> \<bar>x\<bar> / 2 ^ 53" by (rule double_error)
  moreover have "x \<noteq> 0 \<Longrightarrow> \<bar>x\<bar> / 2 ^ 53 < \<bar>x\<bar>" by simp
  ultimately show ?thesis by (cases "x = 0") (auto simp: double_def abs_if split: if_splits)
qed


lemma double_rel:
  obtains e where "\<bar>e\<bar> \<le> 1 / 2 ^ 53" and "double x = x * (1 + e)"
proof (cases "x = 0")
  case True
  then have "\<bar>0::rat\<bar> \<le> 1 / 2 ^ 53" "double x = x * (1 + 0)" by (simp_all add: double_def)
  then show ?thesis by (rule that)
next
  case False
  define e where "e = (double x - x) / x"
  have "\<bar>e\<bar> = \<bar>double x - x\<bar> / \<bar>x\<bar>" by (simp add: e_def)
  also have "\<dots> \<le> (\<bar>x\<bar> / 2 ^ 53) / \<bar>x\<bar>"
    using double_error [of x] by (intro divide_right_mono) simp_all
  also have "\<dots> = 1 / 2 ^ 53" using False by simp
  finally have "\<bar>e\<bar> \<le> 1 / 2 ^ 53" .
  moreover have "double x = x * (1 + e)" using False by (simp add: e_def field_simps)
  ultimately show ?thesis by (rule that)
qed

lemma rounding_factor:
  fixes e1 e2 e3 ep :: rat
  assumes "\<bar>e1\<bar> \<le> 1 / 2 ^ 53" "\<bar>e2\<bar> \<le> 1 / 2 ^ 53" "\<bar>e3\<bar> \<le> 1 / 2 ^ 53" "\<bar>ep\<bar> \<le> 1 / 2 ^ 53"
  shows "\<bar>(1 + e1) * (1 + e2) * (1 + e3) / (1 + ep) - 1\<bar> \<le> 5 / 2 ^ 53"
proof -
  define L :: rat where "L = 1 - 1 / 2 ^ 53"
  define H :: rat where "H = 1 + 1 / 2 ^ 53"
  have L: "0 < L" "L \<le> H" by (simp_all add: L_def H_def)
  have b: "L \<le> 1 + e1" "1 + e1 \<le> H" "L \<le> 1 + e2" "1 + e2 \<le> H"
          "L \<le> 1 + e3" "1 + e3 \<le> H" "L \<le> 1 + ep" "1 + ep \<le> H"
    using assms unfolding L_def H_def by (simp_all add: abs_le_iff)
  have lo2: "L * L \<le> (1 + e1) * (1 + e2)" using b L by (intro mult_mono) simp_all
  have hi2: "(1 + e1) * (1 + e2) \<le> H * H" using b L by (intro mult_mono) simp_all
  have pos2: "0 \<le> L * L" using L by simp
  have lo3: "L * L * L \<le> (1 + e1) * (1 + e2) * (1 + e3)"
    using lo2 b L pos2 by (intro mult_mono) simp_all
  have pos12: "0 \<le> (1 + e1) * (1 + e2)" using lo2 pos2 by linarith
  have hi3: "(1 + e1) * (1 + e2) * (1 + e3) \<le> H * H * H"
    using hi2 b L pos12 by (intro mult_mono) simp_all
  have pos3: "0 \<le> L * L * L" using L by simp
  have up: "(1 + e1) * (1 + e2) * (1 + e3) / (1 + ep) \<le> H * H * H / L"
    using hi3 lo3 pos3 b L by (intro frac_le) simp_all
  have down: "L * L * L / H \<le> (1 + e1) * (1 + e2) * (1 + e3) / (1 + ep)"
    using lo3 pos3 b L by (intro frac_le) simp_all
  define v :: rat where "v = 5 / 2 ^ 53"
  have n1: "H * H * H / L \<le> 1 + v" by (simp add: L_def H_def v_def)
  have n2: "1 - v \<le> L * L * L / H" by (simp add: L_def H_def v_def)
  from up down n1 n2 have "\<bar>(1 + e1) * (1 + e2) * (1 + e3) / (1 + ep) - 1\<bar> \<le> v"
    unfolding abs_le_iff by linarith
  then show ?thesis by (simp only: v_def)
qed


lemma growth_error:
  fixes c p :: rat
  assumes "p \<noteq> 0"
  shows "\<bar>double (double (double (double c - double p) / double p) * 100) - (c - p) / p * 100\<bar> * \<bar>p\<bar>
           \<le> 700 / 2 ^ 53 * (\<bar>c\<bar> + \<bar>p\<bar>)"
proof -
  define u :: rat where "u = 1 / 2 ^ 53"
  obtain ec where ec: "\<bar>ec\<bar> \<le> u" "double c = c * (1 + ec)"
    unfolding u_def by (rule double_rel)
  obtain ep where ep: "\<bar>ep\<bar> \<le> u" "double p = p * (1 + ep)"
    unfolding u_def by (rule double_rel)
  obtain e1 where e1: "\<bar>e1\<bar> \<le> u" "double (double c - double p) = (double c - double p) * (1 + e1)"
    unfolding u_def by (rule double_rel)
  obtain e2 where e2: "\<bar>e2\<bar> \<le> u"
      "double (double (double c - double p) / double p)
         = double (double c - double p) / double p * (1 + e2)"
    unfolding u_def by (rule double_rel)
  obtain e3 where e3: "\<bar>e3\<bar> \<le> u"
      "double (double (double (double c - double p) / double p) * 100)
         = double (double (double c - double p) / double p) * 100 * (1 + e3)"
    unfolding u_def by (rule double_rel)
  define A where "A = (1 + e1) * (1 + e2) * (1 + e3) / (1 + ep)"
  define m where "m = double (double (double (double c - double p) / double p) * 100)"
  define S where "S = \<bar>c\<bar> + \<bar>p\<bar>"
  have u: "0 < u" "5 * u < 1" by (simp_all add: u_def)
  have ep1: "1 + ep \<noteq> 0" using ep(1) u unfolding abs_le_iff by linarith
  have A: "\<bar>A - 1\<bar> \<le> 5 * u"
    using rounding_factor [of e1 e2 e3 ep] e1(1) e2(1) e3(1) ep(1) by (simp add: A_def u_def)
  have "m = double (double (double c - double p) / double p) * 100 * (1 + e3)"
    unfolding m_def by (rule e3(2))
  also have "\<dots> = double (double c - double p) / double p * (1 + e2) * 100 * (1 + e3)"
    by (simp only: e2(2))
  also have "\<dots> = (double c - double p) * (1 + e1) / double p * (1 + e2) * 100 * (1 + e3)"
    by (simp only: e1(2))
  also have "\<dots> = (c * (1 + ec) - p * (1 + ep)) * (1 + e1) / (p * (1 + ep)) * (1 + e2) * 100 * (1 + e3)"
    by (simp only: ec(2) ep(2))
  also have "\<dots> = 100 * (c * (1 + ec) - p * (1 + ep)) * A / p"
    using assms ep1 by (simp add: A_def field_simps)
  finally have m: "m = 100 * (c * (1 + ec) - p * (1 + ep)) * A / p" .
  have "(m - (c - p) / p * 100) * p = 100 * (c * (1 + ec) - p * (1 + ep)) * A - 100 * (c - p)"
    using assms by (simp add: m field_simps)
  also have "\<dots> = 100 * ((c - p) * (A - 1) + (c * ec - p * ep) * A)"
    by (simp add: algebra_simps)
  finally have "\<bar>(m - (c - p) / p * 100) * p\<bar>
                  = \<bar>100 * ((c - p) * (A - 1) + (c * ec - p * ep) * A)\<bar>"
    by (rule arg_cong)
  then have "\<bar>m - (c - p) / p * 100\<bar> * \<bar>p\<bar>
                  = 100 * \<bar>(c - p) * (A - 1) + (c * ec - p * ep) * A\<bar>"
    by (simp only: abs_mult abs_numeral)
  moreover have "\<bar>(c - p) * (A - 1) + (c * ec - p * ep) * A\<bar> \<le> 7 * u * S"
  proof -
    have S: "0 \<le> S" "\<bar>c - p\<bar> \<le> S" by (simp_all add: S_def)
    have A2: "\<bar>A\<bar> \<le> 2" using A u unfolding abs_le_iff by linarith
    have "\<bar>c * ec\<bar> \<le> \<bar>c\<bar> * u" "\<bar>p * ep\<bar> \<le> \<bar>p\<bar> * u"
      using ec(1) ep(1) by (simp_all add: abs_mult mult_left_mono)
    then have ce: "\<bar>c * ec - p * ep\<bar> \<le> S * u" unfolding S_def distrib_right by linarith
    have t1: "\<bar>(c - p) * (A - 1)\<bar> \<le> S * (5 * u)"
      unfolding abs_mult using S A by (intro mult_mono) simp_all
    have t2: "\<bar>(c * ec - p * ep) * A\<bar> \<le> S * u * 2"
      unfolding abs_mult using ce A2 S u by (intro mult_mono) simp_all
    have "\<bar>(c - p) * (A - 1) + (c * ec - p * ep) * A\<bar>
            \<le> \<bar>(c - p) * (A - 1)\<bar> + \<bar>(c * ec - p * ep) * A\<bar>" by (rule abs_triangle_ineq)
    also have "\<dots> \<le> S * (5 * u) + S * u * 2" using t1 t2 by linarith
    also have "\<dots> = 7 * u * S" by (simp add: algebra_simps)
    finally show ?thesis .
  qed
  ultimately have "\<bar>m - (c - p) / p * 100\<bar> * \<bar>p\<bar> \<le> 100 * (7 * u * S)"
    by (simp only: mult_left_mono)
  also have "\<dots> = 700 / 2 ^ 53 * (\<bar>c\<bar> + \<bar>p\<bar>)" by (simp add: S_def u_def)
  finally show ?thesis unfolding m_def .
qed


lemma growth_nearest:
  fixes a b n :: int
  assumes b: "b \<noteq> 0" and n: "0 < n" and small: "\<bar>a\<bar> + \<bar>b\<bar> \<le> 10 ^ 12"
  shows "\<bar>rat_of_int (Math_round (double (double (double (double (of_int a / of_int n)
                                                            - double (of_int b / of_int n))
                                                    / double (of_int b / of_int n)) * 100)))
           - of_int (a - b) / of_int b * 100\<bar> \<le> 1 / 2"
proof -
  define c :: rat where "c = of_int a / of_int n"
  define p :: rat where "p = of_int b / of_int n"
  define m where "m = double (double (double (double c - double p) / double p) * 100)"
  define pc :: rat where "pc = of_int (a - b) / of_int b * 100"
  define g where "g = Math_round m"
  define k where "k = 100 * (a - b) * sgn b"
  have p0: "p \<noteq> 0" using b n by (simp add: p_def)
  have pc: "(c - p) / p * 100 = pc" using b n by (simp add: c_def p_def pc_def field_simps)
  have "\<bar>m - pc\<bar> * \<bar>p\<bar> \<le> 700 / 2 ^ 53 * (\<bar>c\<bar> + \<bar>p\<bar>)"
    using growth_error [OF p0, of c] by (simp only: m_def pc)
  then have le: "\<bar>m - pc\<bar> * \<bar>p\<bar> * of_int n \<le> 700 / 2 ^ 53 * (\<bar>c\<bar> + \<bar>p\<bar>) * of_int n"
    using n by (intro mult_right_mono) simp_all
  have e1: "\<bar>p\<bar> * of_int n = \<bar>rat_of_int b\<bar>" using n by (simp add: p_def)
  have e2: "(\<bar>c\<bar> + \<bar>p\<bar>) * of_int n = rat_of_int (\<bar>a\<bar> + \<bar>b\<bar>)"
    using n by (simp add: c_def p_def distrib_right)
  have "\<bar>m - pc\<bar> * \<bar>rat_of_int b\<bar> = \<bar>m - pc\<bar> * \<bar>p\<bar> * of_int n"
    by (simp only: e1 [symmetric] mult.assoc)
  also note le
  also have "700 / 2 ^ 53 * (\<bar>c\<bar> + \<bar>p\<bar>) * of_int n = 700 / 2 ^ 53 * rat_of_int (\<bar>a\<bar> + \<bar>b\<bar>)"
    by (simp only: e2 [symmetric] mult.assoc)
  also have "\<dots> \<le> 700 / 2 ^ 53 * rat_of_int (10 ^ 12)"
    using small by (intro mult_left_mono) (simp_all only: of_int_le_iff, simp)
  also have "\<dots> < 1 / 2" by simp
  finally have err: "\<bar>m - pc\<bar> * \<bar>rat_of_int b\<bar> < 1 / 2" .
  have bpos: "0 < \<bar>rat_of_int b\<bar>" using b by simp
  have k: "pc * \<bar>rat_of_int b\<bar> = rat_of_int k"
    using b by (cases "0 < b") (simp_all add: pc_def k_def abs_if sgn_if)
  have fl: "rat_of_int g \<le> m + 1 / 2" "m + 1 / 2 < rat_of_int g + 1"
    unfolding g_def Math_round_def by linarith+
  have up: "rat_of_int g - pc \<le> 1 / 2"
  proof (rule ccontr)
    assume "\<not> rat_of_int g - pc \<le> 1 / 2"
    then have "0 < (2 * rat_of_int g - 1 - 2 * pc) * \<bar>rat_of_int b\<bar>"
      using bpos by (intro mult_pos_pos) simp_all
    also have "(2 * rat_of_int g - 1 - 2 * pc) * \<bar>rat_of_int b\<bar>
                 = rat_of_int ((2 * g - 1) * \<bar>b\<bar> - 2 * k)"
      using k by (simp add: algebra_simps)
    finally have "0 < (2 * g - 1) * \<bar>b\<bar> - 2 * k" by (simp only: of_int_0_less_iff)
    then have "1 \<le> (2 * g - 1) * \<bar>b\<bar> - 2 * k" by simp
    then have "rat_of_int 1 \<le> rat_of_int ((2 * g - 1) * \<bar>b\<bar> - 2 * k)" by (simp only: of_int_le_iff)
    also have "rat_of_int ((2 * g - 1) * \<bar>b\<bar> - 2 * k)
                 = (2 * rat_of_int g - 1 - 2 * pc) * \<bar>rat_of_int b\<bar>"
      using k by (simp add: algebra_simps)
    also have "\<dots> \<le> (2 * \<bar>m - pc\<bar>) * \<bar>rat_of_int b\<bar>"
    proof (rule mult_right_mono)
      show "2 * rat_of_int g - 1 - 2 * pc \<le> 2 * \<bar>m - pc\<bar>" using fl(1) by (simp add: abs_if)
      show "0 \<le> \<bar>rat_of_int b\<bar>" by simp
    qed
    also have "\<dots> = 2 * (\<bar>m - pc\<bar> * \<bar>rat_of_int b\<bar>)"
      by (simp only: mult.assoc)
    finally show False using err by simp
  qed
  have down: "pc - rat_of_int g \<le> 1 / 2"
  proof (rule ccontr)
    assume "\<not> pc - rat_of_int g \<le> 1 / 2"
    then have "0 < (2 * pc - 2 * rat_of_int g - 1) * \<bar>rat_of_int b\<bar>"
      using bpos by (intro mult_pos_pos) simp_all
    also have "(2 * pc - 2 * rat_of_int g - 1) * \<bar>rat_of_int b\<bar>
                 = rat_of_int (2 * k - (2 * g + 1) * \<bar>b\<bar>)"
      using k by (simp add: algebra_simps)
    finally have "0 < 2 * k - (2 * g + 1) * \<bar>b\<bar>" by (simp only: of_int_0_less_iff)
    then have "1 \<le> 2 * k - (2 * g + 1) * \<bar>b\<bar>" by simp
    then have "rat_of_int 1 \<le> rat_of_int (2 * k - (2 * g + 1) * \<bar>b\<bar>)" by (simp only: of_int_le_iff)
    also have "rat_of_int (2 * k - (2 * g + 1) * \<bar>b\<bar>)
                 = (2 * pc - 2 * rat_of_int g - 1) * \<bar>rat_of_int b\<bar>"
      using k by (simp add: algebra_simps)
    also have "\<dots> \<le> (2 * \<bar>m - pc\<bar>) * \<bar>rat_of_int b\<bar>"
    proof (rule mult_right_mono)
      show "2 * pc - 2 * rat_of_int g - 1 \<le> 2 * \<bar>m - pc\<bar>" using fl(2) by (simp add: abs_if)
      show "0 \<le> \<bar>rat_of_int b\<bar>" by simp
    qed
    also have "\<dots> = 2 * (\<bar>m - pc\<bar> * \<bar>rat_of_int b\<bar>)"
      by (simp only: mult.assoc)
    finally show False using err by simp
  qed
  from up down have "\<bar>rat_of_int g - pc\<bar> \<le> 1 / 2" unfolding abs_le_iff by simp
  then show ?thesis by (simp only: g_def m_def c_def p_def pc_def)
qed

text \<open>\<^verbatim>\<open>Math.round\<close> gives an integer at distance at most 1/2.\<close>

lemma Math_round_nearest: "\<bar>rat_of_int (Math_round x) - x\<bar> \<le> 1 / 2"
proof -
  have "of_int \<lfloor>x + 1 / 2\<rfloor> \<le> x + 1 / 2" by (rule of_int_floor_le)
  moreover have "x + 1 / 2 < of_int \<lfloor>x + 1 / 2\<rfloor> + 1" by linarith
  ultimately show ?thesis unfolding Math_round_def by linarith
qed

subsection \<open>Growth percentages\<close>

text \<open>
  C3.  The donation growth (\<open>getDonationGrowthPercentage\<close>, used by the dashboard and
  by the summary) and the 30-day user growth (\<open>getUserGrowthPercentage\<close>) are 0 when
  the current and the previous total are both zero, and 100 when the previous total
  is zero and the current one is positive; the totals are the database's exact sums
  and counts.  Otherwise, the previous total not being zero, the result is the
  percentage change \<open>(current - previous) / previous * 100\<close>, computed on doubles as
  the code computes it, rounded to the nearest integer by \<^verbatim>\<open>Math.round\<close>: an
  integer at distance at most 1/2 from that double.  It is also at distance at most
  1/2 from the exact percentage change of the exact totals, as long as the two totals
  together do not exceed ten billion (\<open>10\<^sup>1\<^sup>0\<close>) currency units, or \<open>10\<^sup>1\<^sup>2\<close>
  users; beyond, a double no longer resolves the cents.  When the exact percentage
  lies half-way between two integers either of them is nearest, and the doubles
  decide which one is returned: from 200.00 to 229.00 the change is 14.5 exactly and
  the result is 14.
\<close>

theorem growth_percentage_rule:
  "(currentMonthResult today ds = 0 \<and> previousMonthResult today ds = 0
      \<longrightarrow> getDonationGrowthPercentage today ds = 0)
   \<and> (previousMonthResult today ds = 0 \<and> 0 < currentMonthResult today ds
      \<longrightarrow> getDonationGrowthPercentage today ds = 100)
   \<and> (previousMonthResult today ds \<noteq> 0
      \<longrightarrow> getDonationGrowthPercentage today ds
            = Math_round (double (double (double (currentAmount today ds - previousAmount today ds)
                                            / previousAmount today ds) * 100))
          \<and> \<bar>rat_of_int (getDonationGrowthPercentage today ds)
               - double (double (double (currentAmount today ds - previousAmount today ds)
                                   / previousAmount today ds) * 100)\<bar> \<le> 1 / 2
          \<and> (\<bar>currentMonthResult today ds\<bar> + \<bar>previousMonthResult today ds\<bar> \<le> 10 ^ 10
               \<longrightarrow> \<bar>rat_of_int (getDonationGrowthPercentage today ds)
                      - (currentMonthResult today ds - previousMonthResult today ds)
                          / previousMonthResult today ds * 100\<bar> \<le> 1 / 2))
   \<and> (currentPeriodUsers today us = 0 \<and> previousPeriodUsers today us = 0
      \<longrightarrow> getUserGrowthPercentage today us = 0)
   \<and> (previousPeriodUsers today us = 0 \<and> 0 < currentPeriodUsers today us
      \<longrightarrow> getUserGrowthPercentage today us = 100)
   \<and> (previousPeriodUsers today us \<noteq> 0
      \<longrightarrow> getUserGrowthPercentage today us
            = Math_round (double (double (double (currentCount today us - previousCount today us)
                                            / previousCount today us) * 100))
          \<and> \<bar>rat_of_int (getUserGrowthPercentage today us)
               - double (double (double (currentCount today us - previousCount today us)
                                   / previousCount today us) * 100)\<bar> \<le> 1 / 2
          \<and> (currentPeriodUsers today us + previousPeriodUsers today us \<le> 10 ^ 12
               \<longrightarrow> \<bar>rat_of_int (getUserGrowthPercentage today us)
                      - rat_of_int (currentPeriodUsers today us - previousPeriodUsers today us)
                          / rat_of_int (previousPeriodUsers today us) * 100\<bar> \<le> 1 / 2))"
proof -
  have zero: "double x = 0 \<longleftrightarrow> x = 0" and pos: "0 < double x \<longleftrightarrow> 0 < x" for x
    using double_sign [of x] by simp_all
  obtain a where a: "currentMonthResult today ds = rat_of_int a / rat_of_int 100"
    by (simp add: currentMonthResult_def sum_amount_def Let_def)
  obtain b where b: "previousMonthResult today ds = rat_of_int b / rat_of_int 100"
    by (simp add: previousMonthResult_def sum_amount_def Let_def)
  have d1: "currentMonthResult today ds = 0 \<and> previousMonthResult today ds = 0
      \<longrightarrow> getDonationGrowthPercentage today ds = 0"
    by (simp add: getDonationGrowthPercentage_def currentAmount_def previousAmount_def
          double_def)
  have d2: "previousMonthResult today ds = 0 \<and> 0 < currentMonthResult today ds
      \<longrightarrow> getDonationGrowthPercentage today ds = 100"
    by (simp add: getDonationGrowthPercentage_def currentAmount_def previousAmount_def
          zero pos)
  have d3: "getDonationGrowthPercentage today ds
            = Math_round (double (double (double (currentAmount today ds - previousAmount today ds)
                                            / previousAmount today ds) * 100))"
    if "previousMonthResult today ds \<noteq> 0"
    using that by (simp add: getDonationGrowthPercentage_def previousAmount_def zero)
  have d3': "\<bar>rat_of_int (getDonationGrowthPercentage today ds)
               - double (double (double (currentAmount today ds - previousAmount today ds)
                                   / previousAmount today ds) * 100)\<bar> \<le> 1 / 2"
    if "previousMonthResult today ds \<noteq> 0"
    unfolding d3 [OF that] by (rule Math_round_nearest)
  have d4: "\<bar>rat_of_int (getDonationGrowthPercentage today ds)
                      - (currentMonthResult today ds - previousMonthResult today ds)
                          / previousMonthResult today ds * 100\<bar> \<le> 1 / 2"
    if nz: "previousMonthResult today ds \<noteq> 0"
      and small: "\<bar>currentMonthResult today ds\<bar> + \<bar>previousMonthResult today ds\<bar> \<le> 10 ^ 10"
  proof -
    have b0: "b \<noteq> 0" using nz b by auto
    have "(rat_of_int \<bar>a\<bar> + rat_of_int \<bar>b\<bar>) / 100 \<le> 10 ^ 10"
      using small by (simp add: a b add_divide_distrib)
    then have "rat_of_int (\<bar>a\<bar> + \<bar>b\<bar>) \<le> rat_of_int (10 ^ 12)" by simp
    then have ab: "\<bar>a\<bar> + \<bar>b\<bar> \<le> 10 ^ 12" by (simp only: of_int_le_iff)
    have "(currentMonthResult today ds - previousMonthResult today ds)
              / previousMonthResult today ds * 100 = rat_of_int (a - b) / rat_of_int b * 100"
      using b0 by (simp add: a b field_simps)
    then show ?thesis
      using growth_nearest [OF b0 _ ab, of 100] d3 [OF nz]
      by (simp only: currentAmount_def previousAmount_def a b)
  qed
  have u1: "currentPeriodUsers today us = 0 \<and> previousPeriodUsers today us = 0
      \<longrightarrow> getUserGrowthPercentage today us = 0"
    by (simp add: getUserGrowthPercentage_def currentCount_def previousCount_def double_def)
  have u2: "previousPeriodUsers today us = 0 \<and> 0 < currentPeriodUsers today us
      \<longrightarrow> getUserGrowthPercentage today us = 100"
    by (simp add: getUserGrowthPercentage_def currentCount_def previousCount_def zero pos)
  have u3: "getUserGrowthPercentage today us
            = Math_round (double (double (double (currentCount today us - previousCount today us)
                                            / previousCount today us) * 100))"
    if "previousPeriodUsers today us \<noteq> 0"
    using that by (simp add: getUserGrowthPercentage_def previousCount_def zero)
  have u3': "\<bar>rat_of_int (getUserGrowthPercentage today us)
               - double (double (double (currentCount today us - previousCount today us)
                                   / previousCount today us) * 100)\<bar> \<le> 1 / 2"
    if "previousPeriodUsers today us \<noteq> 0"
    unfolding u3 [OF that] by (rule Math_round_nearest)
  have u4: "\<bar>rat_of_int (getUserGrowthPercentage today us)
                      - rat_of_int (currentPeriodUsers today us - previousPeriodUsers today us)
                          / rat_of_int (previousPeriodUsers today us) * 100\<bar> \<le> 1 / 2"
    if nz: "previousPeriodUsers today us \<noteq> 0"
      and small: "currentPeriodUsers today us + previousPeriodUsers today us \<le> 10 ^ 12"
  proof -
    have "0 \<le> currentPeriodUsers today us" "0 \<le> previousPeriodUsers today us"
      by (simp_all add: currentPeriodUsers_def previousPeriodUsers_def Let_def)
    with small have ab: "\<bar>currentPeriodUsers today us\<bar> + \<bar>previousPeriodUsers today us\<bar> \<le> 10 ^ 12"
      by simp
    show ?thesis
      using growth_nearest [OF nz _ ab, of 1] u3 [OF nz]
      by (simp add: currentCount_def previousCount_def)
  qed
  from d1 d2 d3 d3' d4 u1 u2 u3 u3' u4 show ?thesis by blast
qed

text \<open>
  The rule at work on 31 March 2025: no donation at all; one donation of 50.00 on
  10 March; 100.00 on 10 February and 150.00 on 10 March, a change of 50 per cent;
  200.00 on 10 February and 229.00 on 10 March, a change of 14.5 per cent, which the
  doubles make \<open>8162774324609023 / 2\<^sup>4\<^sup>9\<close>, just below 14.5, and \<^verbatim>\<open>Math.round\<close>
  14; and the first three situations for users created 21 and 51 days before.
\<close>

theorem growth_percentage_rule_witness:
  "currentMonthResult example_today [] = 0 \<and> previousMonthResult example_today [] = 0
   \<and> getDonationGrowthPercentage example_today [] = 0
   \<and> previousMonthResult example_today [example_donation 1 5000 1741564800000] = 0
   \<and> 0 < currentMonthResult example_today [example_donation 1 5000 1741564800000]
   \<and> getDonationGrowthPercentage example_today [example_donation 1 5000 1741564800000] = 100
   \<and> previousMonthResult example_today
         [example_donation 1 10000 1739145600000, example_donation 2 15000 1741564800000] = 100
   \<and> currentMonthResult example_today
         [example_donation 1 10000 1739145600000, example_donation 2 15000 1741564800000] = 150
   \<and> getDonationGrowthPercentage example_today
         [example_donation 1 10000 1739145600000, example_donation 2 15000 1741564800000] = 50
   \<and> previousMonthResult example_today
         [example_donation 1 20000 1739145600000, example_donation 2 22900 1741564800000] = 200
   \<and> currentMonthResult example_today
         [example_donation 1 20000 1739145600000, example_donation 2 22900 1741564800000] = 229
   \<and> double (double (double (229 - 200) / 200) * 100) = 8162774324609023 / 2 ^ 49
   \<and> getDonationGrowthPercentage example_today
         [example_donation 1 20000 1739145600000, example_donation 2 22900 1741564800000] = 14
   \<and> \<bar>rat_of_int (getDonationGrowthPercentage example_today
         [example_donation 1 20000 1739145600000, example_donation 2 22900 1741564800000])
        - 29 / 2\<bar> \<le> 1 / 2
   \<and> currentPeriodUsers example_today [] = 0 \<and> previousPeriodUsers example_today [] = 0
   \<and> getUserGrowthPercentage example_today [] = 0
   \<and> previousPeriodUsers example_today [example_user_at 3 1741564800000] = 0
   \<and> 0 < currentPeriodUsers example_today [example_user_at 3 1741564800000]
   \<and> getUserGrowthPercentage example_today [example_user_at 3 1741564800000] = 100
   \<and> previousPeriodUsers example_today
         [example_user_at 3 1741564800000, example_user_at 4 1741564800001,
          example_user_at 5 1741564800002, example_user_at 6 1739145600000,
          example_user_at 7 1739145600001] = 2
   \<and> currentPeriodUsers example_today
         [example_user_at 3 1741564800000, example_user_at 4 1741564800001,
          example_user_at 5 1741564800002, example_user_at 6 1739145600000,
          example_user_at 7 1739145600001] = 3
   \<and> getUserGrowthPercentage example_today
         [example_user_at 3 1741564800000, example_user_at 4 1741564800001,
          example_user_at 5 1741564800002, example_user_at 6 1739145600000,
          example_user_at 7 1739145600001] = 50"
proof -
  let ?d1 = "[example_donation 1 5000 1741564800000]"
  let ?d2 = "[example_donation 1 10000 1739145600000, example_donation 2 15000 1741564800000]"
  let ?d3 = "[example_donation 1 20000 1739145600000, example_donation 2 22900 1741564800000]"
  let ?u1 = "[example_user_at 3 1741564800000]"
  let ?u2 = "[example_user_at 3 1741564800000, example_user_at 4 1741564800001,
          example_user_at 5 1741564800002, example_user_at 6 1739145600000,
          example_user_at 7 1739145600001]"
  have a: "currentMonthResult example_today [] = 0" "previousMonthResult example_today [] = 0"
    by code_simp+
  have b: "previousMonthResult example_today ?d1 = 0" "currentMonthResult example_today ?d1 = 50"
    by code_simp+
  have c: "previousMonthResult example_today ?d2 = 100" "currentMonthResult example_today ?d2 = 150"
    by code_simp+
  have c': "previousAmount example_today ?d2 = 100" "currentAmount example_today ?d2 = 150"
    by code_simp+
  have d: "previousMonthResult example_today ?d3 = 200" "currentMonthResult example_today ?d3 = 229"
    by code_simp+
  have d': "previousAmount example_today ?d3 = 200" "currentAmount example_today ?d3 = 229"
    by code_simp+
  have e: "currentPeriodUsers example_today [] = 0" "previousPeriodUsers example_today [] = 0"
    by code_simp+
  have f: "previousPeriodUsers example_today ?u1 = 0" "currentPeriodUsers example_today ?u1 = 1"
    by code_simp+
  have g: "previousPeriodUsers example_today ?u2 = 2" "currentPeriodUsers example_today ?u2 = 3"
    by code_simp+
  have g': "previousCount example_today ?u2 = 2" "currentCount example_today ?u2 = 3"
    by code_simp+
  have r1: "Math_round (double (double (double (150 - 100) / 100) * 100)) = 50"
    by code_simp
  have r2: "double (double (double (229 - 200) / 200) * 100) = 8162774324609023 / 2 ^ 49"
    by code_simp
  have r3: "Math_round (double (double (double (229 - 200) / 200) * 100)) = 14"
    by code_simp
  have r4: "Math_round (double (double (double (3 - 2) / 2) * 100)) = 50"
    by code_simp
  have none: "getDonationGrowthPercentage example_today [] = 0"
             "getUserGrowthPercentage example_today [] = 0"
    using growth_percentage_rule [of example_today "[]" "[]"] by (simp_all add: a e)
  have first: "getDonationGrowthPercentage example_today ?d1 = 100"
              "getUserGrowthPercentage example_today ?u1 = 100"
    using growth_percentage_rule [of example_today ?d1 ?u1] by (simp_all add: b f)
  have half: "getDonationGrowthPercentage example_today ?d2 = 50"
             "getUserGrowthPercentage example_today ?u2 = 50"
    using growth_percentage_rule [of example_today ?d2 ?u2] r1 r4
    by (simp_all only: c c' g g')
  have tie: "getDonationGrowthPercentage example_today ?d3 = 14"
    using growth_percentage_rule [of example_today ?d3 "[]"] r3
    by (simp only: d d')
  have "previousMonthResult example_today ?d3 \<noteq> 0"
       "\<bar>currentMonthResult example_today ?d3\<bar> + \<bar>previousMonthResult example_today ?d3\<bar> \<le> 10 ^ 10"
    by (simp_all add: d)
  with growth_percentage_rule [of example_today ?d3 "[]"]
  have "\<bar>rat_of_int (getDonationGrowthPercentage example_today ?d3)
          - (currentMonthResult example_today ?d3 - previousMonthResult example_today ?d3)
              / previousMonthResult example_today ?d3 * 100\<bar> \<le> 1 / 2"
    by blast
  then have near: "\<bar>rat_of_int (getDonationGrowthPercentage example_today ?d3) - 29 / 2\<bar> \<le> 1 / 2"
    by (simp add: d)
  from a b c d e f g r2 none first half tie near show ?thesis by simp
qed

subsection \<open>The six-month trend\<close>

text \<open>
  C4.  The trend has six buckets, oldest first, one per calendar month, the last one
  ending now.  On the 31st of a month the first loop does not produce the first days
  of six different months: \<^verbatim>\<open>setMonth\<close> is applied before \<^verbatim>\<open>setDate(1)\<close>, and
  31 February or 31 November carries into the month after.  At noon of 31 March 2025
  the six starts are 1 October, 1 December, 1 December, 1 January, 1 March and
  1 March, and a completed donation of 50.00 made on 15 February is counted in the
  bucket labelled January; the buckets labelled December and March come twice, the
  first of each pair empty, and the one labelled October also spans November.
  At noon of 15 March 2025 the starts are the first days of October to March.
\<close>

theorem monthlyTrend_on_the_31st:
  "getFullYear example_today = 2025 \<and> getMonth example_today = 2 \<and> getDate example_today = 31
   \<and> getFullYear 1739577600000 = 2025 \<and> getMonth 1739577600000 = 1
   \<and> getDate 1739577600000 = 15
   \<and> map (\<lambda>t. (getFullYear t, getMonth t, getDate t)) (months_loop example_today 0 [])
       = [(2024, 9, 1), (2024, 11, 1), (2024, 11, 1), (2025, 0, 1), (2025, 2, 1), (2025, 2, 1)]
   \<and> map (\<lambda>t. (getFullYear t, getMonth t, getDate t)) (months_loop 1742040000000 0 [])
       = [(2024, 9, 1), (2024, 10, 1), (2024, 11, 1), (2025, 0, 1), (2025, 1, 1), (2025, 2, 1)]
   \<and> monthlyTrend example_today [example_donation 1 5000 1739577600000]
       = [\<lparr>tp_month = 9, tp_year = 2024, tp_amount = 0\<rparr>,
          \<lparr>tp_month = 11, tp_year = 2024, tp_amount = 0\<rparr>,
          \<lparr>tp_month = 11, tp_year = 2024, tp_amount = 0\<rparr>,
          \<lparr>tp_month = 0, tp_year = 2025, tp_amount = 50\<rparr>,
          \<lparr>tp_month = 2, tp_year = 2025, tp_amount = 0\<rparr>,
          \<lparr>tp_month = 2, tp_year = 2025, tp_amount = 0\<rparr>]"
  by code_simp

subsection \<open>The owner account\<close>

text \<open>
  C1.  A request that targets the designated owner account is answered 403 and
  changes nothing in the database: the admin delete and the admin update whose body
  has \<open>role = "user"\<close>, when the addressed row carries the owner's email, and the
  self-service delete, when the requester is the owner.  The whole database after the
  request is the database before it, so the owner's row is neither deleted nor
  changed, and no activity is logged.
\<close>

theorem owner_account_protected:
  "(getUserById userId s = Some user \<and> u_email user = OWNER_EMAIL
      \<longrightarrow> admin_delete_user now (Some userId) reqUser s
            = (Response 403 (Message ''Cannot delete the owner account''), s))
   \<and> (getUserById userId s = Some user \<and> u_email user = OWNER_EMAIL
        \<and> reqBody ''role'' = JStr ''user''
      \<longrightarrow> admin_update_user hash now (Some userId) reqBody reqUser s
            = (Response 403 (Message ''Cannot change the owner's role''), s))
   \<and> (i_email ident = OWNER_EMAIL
      \<longrightarrow> delete_profile now (Some ident) s
            = (Response 403 (Message ''Cannot delete the owner account''), s))"
  by (simp add: admin_delete_user_def admin_update_user_def delete_profile_def)

lemma example_owner_found: "getUserById 1 example_db = Some example_owner"
  by (simp add: getUserById_def example_db_def example_owner_def)

lemma example_owner_email: "u_email example_owner = OWNER_EMAIL"
  by (simp add: example_owner_def OWNER_EMAIL_def)

lemma example_owner_identity_email: "i_email (identity_of example_owner) = OWNER_EMAIL"
  by (simp add: identity_of_def example_owner_def OWNER_EMAIL_def)

theorem owner_account_protected_witness:
  "getUserById 1 example_db = Some example_owner \<and> u_email example_owner = OWNER_EMAIL
   \<and> (empty_body(''role'' := JStr ''user'')) ''role'' = JStr ''user''
   \<and> i_email (identity_of example_owner) = OWNER_EMAIL
   \<and> admin_delete_user 0 (Some 1) (Some (identity_of example_owner)) example_db
       = (Response 403 (Message ''Cannot delete the owner account''), example_db)
   \<and> admin_update_user (\<lambda>pw. pw) 0 (Some 1) (empty_body(''role'' := JStr ''user''))
         (Some (identity_of example_owner)) example_db
       = (Response 403 (Message ''Cannot change the owner's role''), example_db)
   \<and> delete_profile 0 (Some (identity_of example_owner)) example_db
       = (Response 403 (Message ''Cannot delete the owner account''), example_db)"
  using owner_account_protected [of 1 example_db example_owner 0 "Some (identity_of example_owner)"
          "empty_body(''role'' := JStr ''user'')" "\<lambda>pw. pw" "identity_of example_owner"]
        example_owner_found example_owner_email example_owner_identity_email
  by simp

subsection \<open>The donation summary endpoint\<close>

text \<open>
  C2.  \<open>getDonationSummary\<close> is an arrow function, so the \<^verbatim>\<open>this\<close> of
  \<^verbatim>\<open>this.getMonthlyDonationAmount()\<close> is the module's, in either module format not
  the storage object: the call throws for every period and every table of donations,
  before any summary exists, and every \<^verbatim>\<open>GET /admin/donations/summary\<close> is
  answered by the \<^verbatim>\<open>catch\<close> branch with 500.  Called with the storage object as
  receiver the same body would return a summary.
\<close>

theorem donation_summary_always_throws:
  "getDonationSummary (module_this fmt) today period ds = Inl TypeError
   \<and> donation_summary fmt today periodParam s
       = Response 500 (Message ''An error occurred while fetching donation summary'')
   \<and> (\<exists>result. getDonationSummary ThisStorage today period ds = Inr result)"
  by (cases fmt) (simp_all add: getDonationSummary_def donation_summary_def module_this_def
        this_call_def Let_def)

subsection \<open>Creating a donation\<close>

lemma example_member_found: "getUserById 2 example_db = Some example_member"
  by (simp add: getUserById_def example_db_def example_owner_def example_member_def)

lemma example_parse_bank_qr:
  "parse_donation example_parseFloat (example_donation_body ''50'' ''bank_qr'')
     = Inr \<lparr>dd_amount = ''50'', dd_paymentMethod = ''bank_qr'', dd_transactionId = None,
            dd_qrImageUrl = None, dd_esewaReference = None\<rparr>"
  by (simp add: parse_donation_def example_donation_body_def example_parseFloat_def
        amount_issues_def method_issues_def optional_text_issues_def optional_text_def
        payment_methods_def empty_body_def Let_def)

lemma example_parse_bank_qr_named:
  "parse_donation example_parseFloat
     ((example_donation_body ''50'' ''bank_qr'')(''bankName'' := JStr ''nabil''))
     = Inr \<lparr>dd_amount = ''50'', dd_paymentMethod = ''bank_qr'', dd_transactionId = None,
            dd_qrImageUrl = None, dd_esewaReference = None\<rparr>"
  by (simp add: parse_donation_def example_donation_body_def example_parseFloat_def
        amount_issues_def method_issues_def optional_text_issues_def optional_text_def
        payment_methods_def empty_body_def Let_def)

lemma example_clock_text:
  "string_of_int (example_clock 0) = ''1743422400000''"
  "string_of_int (example_clock 1) = ''1743422400001''"
  "string_of_int (example_clock (Suc 0)) = ''1743422400001''"
  by (simp_all add: string_of_int_def example_clock_def digit_char_def)

lemma example_upper: "toUpperCase ''nabil'' = ''NABIL''"
  by code_simp

lemma example_member_id: "i_id (identity_of example_member) = 2"
  by (simp add: identity_of_def example_member_def)

lemma example_numeric_50: "example_numeric ''50'' = Some 5000"
  by (simp add: example_numeric_def)

lemma example_body_no_bankName:
  "(example_donation_body ''50'' ''bank_qr'') ''bankName'' = JUndefined"
  by (simp add: example_donation_body_def empty_body_def)

text \<open>
  C5, as the claim states it, fails: a valid \<open>bank_qr\<close> donation whose body has no
  \<open>bankName\<close> is created and answered 201 with status \<open>pending\<close>, but with neither
  a QR image URL nor a transaction id.
\<close>

theorem bank_qr_without_bankName:
  "parse_donation example_parseFloat (example_donation_body ''50'' ''bank_qr'')
     = Inr \<lparr>dd_amount = ''50'', dd_paymentMethod = ''bank_qr'', dd_transactionId = None,
            dd_qrImageUrl = None, dd_esewaReference = None\<rparr>
   \<and> fst (create_donation example_parseFloat example_numeric example_clock 7 example_today
         (example_donation_body ''50'' ''bank_qr'') (Some (identity_of example_member)) example_db)
     = Response 201 (DonationJson
         \<lparr>d_id = 1, d_userId = 2, d_amount = 5000, d_paymentMethod = ''bank_qr'',
          d_transactionId = None, d_qrImageUrl = None, d_esewaReference = None,
          d_status = ''pending'', d_createdAt = example_today\<rparr>)"
  by (simp add: example_parse_bank_qr create_donation_def payment_details_def
        createDonation_def example_numeric_50 or_null_def example_member_id
        example_member_found example_body_no_bankName Let_def)
     (simp add: example_db_def)

text \<open>
  C5, amended.  For an authenticated request that passes validation and whose amount
  the database accepts, the donation is created and sent back with 201; its status
  is \<open>pending\<close> for \<open>esewa\<close> and \<open>bank_qr\<close> and \<open>completed\<close> for the other
  payment methods (\<open>credit_card\<close>, \<open>debit_card\<close>, \<open>paypal\<close>).  A \<open>bank_qr\<close>
  donation carries the generated placeholder QR URL and the generated transaction id
  when the body has a non-empty string \<open>bankName\<close>, an \<open>esewa\<close> donation the
  generated reference when the body has a truthy \<open>esewaId\<close>.  (A truthy
  \<open>bankName\<close> that is not a string is excluded by the last hypothesis.)
\<close>

theorem donation_status_by_method:
  assumes valid: "parse_donation parseFloat reqBody = Inr dd"
      and amount: "numeric (dd_amount dd) = Some hundredths"
      and user: "getUserById (i_id ident) s \<noteq> None"
      and bank: "truthy (reqBody ''bankName'') \<longrightarrow> (\<exists>b. reqBody ''bankName'' = JStr b)"
  shows "\<exists>d s'. create_donation parseFloat numeric clock random now reqBody (Some ident) s
                  = (Response 201 (DonationJson d), s')
          \<and> d \<in> set (donations s')
          \<and> reqBody ''paymentMethod'' = JStr (d_paymentMethod d)
          \<and> d_paymentMethod d \<in> set payment_methods
          \<and> d_status d = (if d_paymentMethod d = ''esewa'' \<or> d_paymentMethod d = ''bank_qr''
                           then ''pending'' else ''completed'')
          \<and> (d_paymentMethod d = ''bank_qr'' \<and> truthy (reqBody ''bankName'')
               \<longrightarrow> (\<exists>b. reqBody ''bankName'' = JStr b
                    \<and> d_qrImageUrl d = Some (''https://example.com/qr-codes/church-donation-''
                                              @ string_of_int (clock 0) @ ''.png'')
                    \<and> d_transactionId d = Some (''BANK-'' @ toUpperCase b @ ''-''
                                                 @ string_of_int (clock 1))))
          \<and> (d_paymentMethod d = ''esewa'' \<and> truthy (reqBody ''esewaId'')
               \<longrightarrow> d_esewaReference d = Some (''ESEWA-'' @ string_of_int (clock 0) @ ''-''
                                                @ string_of_nat random))"
proof -
  from valid have pm: "reqBody ''paymentMethod'' = JStr (dd_paymentMethod dd)"
    and en: "dd_paymentMethod dd \<in> set payment_methods"
    by (auto simp: parse_donation_def Let_def method_issues_def split: if_splits jsval.splits)
  show ?thesis
  proof (cases "dd_paymentMethod dd = ''esewa''")
    case True
    then show ?thesis
      using valid amount user pm en
      by (auto simp: create_donation_def payment_details_def createDonation_def Let_def
            logActivity_def or_null_def split: option.splits)
  next
    case not_esewa: False
    show ?thesis
    proof (cases "dd_paymentMethod dd = ''bank_qr''")
      case bank_qr: True
      show ?thesis
      proof (cases "truthy (reqBody ''bankName'')")
        case True
        with bank obtain b where b: "reqBody ''bankName'' = JStr b" by blast
        from True b bank_qr show ?thesis
          using valid amount user pm en
          by (auto simp: create_donation_def payment_details_def createDonation_def Let_def
                logActivity_def or_null_def split: option.splits)
      next
        case False
        with bank_qr show ?thesis
          using valid amount user pm en
          by (auto simp: create_donation_def payment_details_def createDonation_def Let_def
                logActivity_def or_null_def split: option.splits)
      qed
    next
      case False
      with not_esewa show ?thesis
        using valid amount user pm en
        by (auto simp: create_donation_def payment_details_def createDonation_def Let_def
              logActivity_def or_null_def split: option.splits)
    qed
  qed
qed

theorem donation_status_by_method_witness:
  "parse_donation example_parseFloat
       ((example_donation_body ''50'' ''bank_qr'')(''bankName'' := JStr ''nabil''))
     = Inr \<lparr>dd_amount = ''50'', dd_paymentMethod = ''bank_qr'', dd_transactionId = None,
            dd_qrImageUrl = None, dd_esewaReference = None\<rparr>
   \<and> example_numeric ''50'' = Some 5000
   \<and> getUserById (i_id (identity_of example_member)) example_db = Some example_member
   \<and> ((example_donation_body ''50'' ''bank_qr'')(''bankName'' := JStr ''nabil'')) ''bankName''
       = JStr ''nabil''
   \<and> (\<exists>d s'. create_donation example_parseFloat example_numeric example_clock 7 example_today
                 ((example_donation_body ''50'' ''bank_qr'')(''bankName'' := JStr ''nabil''))
                 (Some (identity_of example_member)) example_db
               = (Response 201 (DonationJson d), s')
            \<and> d_paymentMethod d = ''bank_qr'' \<and> d_status d = ''pending''
            \<and> d_qrImageUrl d
                = Some ''https://example.com/qr-codes/church-donation-1743422400000.png''
            \<and> d_transactionId d = Some ''BANK-NABIL-1743422400001'')"
proof -
  let ?body = "(example_donation_body ''50'' ''bank_qr'')(''bankName'' := JStr ''nabil'')"
  have b: "?body ''bankName'' = JStr ''nabil''" by simp
  have m: "?body ''paymentMethod'' = JStr ''bank_qr''"
    by (simp add: example_donation_body_def)
  have u: "getUserById (i_id (identity_of example_member)) example_db = Some example_member"
    by (simp add: example_member_id example_member_found)
  from donation_status_by_method [of example_parseFloat ?body _ example_numeric 5000
         "identity_of example_member" example_db example_clock 7 example_today,
         OF example_parse_bank_qr_named]
  obtain d s' where
    r: "create_donation example_parseFloat example_numeric example_clock 7 example_today
          ?body (Some (identity_of example_member)) example_db
        = (Response 201 (DonationJson d), s')"
    and pm: "?body ''paymentMethod'' = JStr (d_paymentMethod d)"
    and st: "d_status d = (if d_paymentMethod d = ''esewa'' \<or> d_paymentMethod d = ''bank_qr''
                           then ''pending'' else ''completed'')"
    and qr: "d_paymentMethod d = ''bank_qr'' \<and> truthy (?body ''bankName'')
               \<longrightarrow> (\<exists>b. ?body ''bankName'' = JStr b
                    \<and> d_qrImageUrl d = Some (''https://example.com/qr-codes/church-donation-''
                                              @ string_of_int (example_clock 0) @ ''.png'')
                    \<and> d_transactionId d = Some (''BANK-'' @ toUpperCase b @ ''-''
                                                 @ string_of_int (example_clock 1)))"
    using u by (auto simp: example_numeric_50)
  from pm m have pm': "d_paymentMethod d = ''bank_qr''" by simp
  from qr pm' have
    "d_qrImageUrl d = Some ''https://example.com/qr-codes/church-donation-1743422400000.png''"
    "d_transactionId d = Some ''BANK-NABIL-1743422400001''"
    by (simp_all add: example_clock_text example_upper)
  with r pm' st example_parse_bank_qr_named u b show ?thesis
    by (auto simp: example_numeric_50)
qed

text \<open>
  C6.  A request whose amount is a string that \<^verbatim>\<open>parseFloat\<close> reads as a number
  \<open>\<le> 0\<close>, or a JSON number \<open>\<le> 0\<close>, is answered 400 with the validation
  message, and the database after the request is the database before it:
  \<open>createDonation\<close> is not reached.  The handler validates the body of a request that
  has passed the route's authentication check; one that carries no identity is
  answered 401 there, the database unchanged as well.
\<close>

theorem nonpositive_amount_rejected:
  "(reqBody ''amount'' = JStr val \<and> parseFloat val = Some x \<and> x \<le> 0
      \<longrightarrow> (\<exists>issues. create_donation parseFloat numeric clock random now reqBody (Some ident) s
                      = (Response 400 (ValidationMessage issues), s)
                  \<and> ''Amount must be greater than 0'' \<in> set issues))
   \<and> (reqBody ''amount'' = JNum x \<and> x \<le> 0
      \<longrightarrow> (\<exists>issues. create_donation parseFloat numeric clock random now reqBody (Some ident) s
                      = (Response 400 (ValidationMessage issues), s)
                  \<and> ''Expected string'' \<in> set issues))
   \<and> create_donation parseFloat numeric clock random now reqBody None s
       = (Response 401 (Message ''Unauthorized - Authentication required''), s)"
  by (simp add: create_donation_def parse_donation_def amount_issues_def Let_def)

theorem nonpositive_amount_rejected_witness:
  "(example_donation_body ''-5'' ''paypal'') ''amount'' = JStr ''-5''
   \<and> example_parseFloat ''-5'' = Some (- 5) \<and> (- 5 :: rat) \<le> 0
   \<and> create_donation example_parseFloat example_numeric example_clock 7 example_today
         (example_donation_body ''-5'' ''paypal'') (Some (identity_of example_member)) example_db
       = (Response 400 (ValidationMessage [''Amount must be greater than 0'']), example_db)
   \<and> ((example_donation_body ''-5'' ''paypal'')(''amount'' := JNum 0)) ''amount'' = JNum 0
   \<and> create_donation example_parseFloat example_numeric example_clock 7 example_today
         ((example_donation_body ''-5'' ''paypal'')(''amount'' := JNum 0))
         (Some (identity_of example_member)) example_db
       = (Response 400 (ValidationMessage [''Expected string'']), example_db)"
proof -
  have a: "(example_donation_body ''-5'' ''paypal'') ''amount'' = JStr ''-5''"
    by (simp add: example_donation_body_def)
  have b: "example_parseFloat ''-5'' = Some (- 5)"
    by (simp add: example_parseFloat_def)
  have c: "parse_donation example_parseFloat (example_donation_body ''-5'' ''paypal'')
             = Inl (ZodError [''Amount must be greater than 0''])"
    by (simp add: parse_donation_def example_donation_body_def example_parseFloat_def
          amount_issues_def method_issues_def optional_text_issues_def payment_methods_def
          empty_body_def Let_def)
  have d: "parse_donation example_parseFloat
             ((example_donation_body ''-5'' ''paypal'')(''amount'' := JNum 0))
             = Inl (ZodError [''Expected string''])"
    by (simp add: parse_donation_def example_donation_body_def example_parseFloat_def
          amount_issues_def method_issues_def optional_text_issues_def payment_methods_def
          empty_body_def Let_def)
  show ?thesis
    using nonpositive_amount_rejected [of "example_donation_body ''-5'' ''paypal''" "''-5''"
            example_parseFloat "- 5" example_numeric example_clock 7 example_today
            "identity_of example_member" example_db]
          nonpositive_amount_rejected [of "(example_donation_body ''-5'' ''paypal'')(''amount'' := JNum 0)"
            "''-5''" example_parseFloat 0 example_numeric example_clock 7 example_today
            "identity_of example_member" example_db]
    by (simp add: a b) (simp add: create_donation_def c d)
qed

subsection \<open>Update endpoints\<close>

lemma pick_allowed_other:
  "k \<notin> set allowed \<Longrightarrow> pick_allowed allowed reqBody updateData k = updateData k"
  by (induction allowed arbitrary: updateData) auto

lemma map_if_same:
  "(\<And>x. f (g x) = f x) \<Longrightarrow> map f (map (\<lambda>x. if P x then g x else x) xs) = map f xs"
  by (induction xs) auto

lemma logActivity_keeps:
  "users (logActivity now userId action details s) = users s"
  "donations (logActivity now userId action details s) = donations s"
  "contacts (logActivity now userId action details s) = contacts s"
  "media_rows (logActivity now userId action details s) = media_rows s"
  by (simp_all add: logActivity_def Let_def split: option.splits)

lemma logActivity_rest:
  "(logActivity now userId action details s)
      \<lparr>users := us, activities := acts, activities_seq := next_id\<rparr>
   = s\<lparr>users := us, activities := acts, activities_seq := next_id\<rparr>"
  "(logActivity now userId action details s)
      \<lparr>contacts := cs, activities := acts, activities_seq := next_id\<rparr>
   = s\<lparr>contacts := cs, activities := acts, activities_seq := next_id\<rparr>"
  "(logActivity now userId action details s)
      \<lparr>donations := ds, activities := acts, activities_seq := next_id\<rparr>
   = s\<lparr>donations := ds, activities := acts, activities_seq := next_id\<rparr>"
  "(logActivity now userId action details s)
      \<lparr>media_rows := ms, activities := acts, activities_seq := next_id\<rparr>
   = s\<lparr>media_rows := ms, activities := acts, activities_seq := next_id\<rparr>"
  by (simp_all add: logActivity_def Let_def split: option.splits)

lemma updateUser_protected:
  assumes "data ''id'' = JUndefined" "data ''email'' = JUndefined"
    "data ''password'' = JUndefined" "data ''role'' = JUndefined" "data ''status'' = JUndefined"
    and "updateUser i data s = Inr (rows, s1)"
  shows "map (\<lambda>u. (u_id u, u_email u, u_password u, u_role u, u_status u, u_createdAt u)) (users s1)
         = map (\<lambda>u. (u_id u, u_email u, u_password u, u_role u, u_status u, u_createdAt u)) (users s)"
    and "s1\<lparr>users := users s\<rparr> = s"
proof -
  from assms(6) have s1: "s1 = s\<lparr>users := map (\<lambda>u. if u_id u = i then user_set data u else u) (users s)\<rparr>"
    by (auto simp: updateUser_def Let_def split: if_splits)
  show "map (\<lambda>u. (u_id u, u_email u, u_password u, u_role u, u_status u, u_createdAt u)) (users s1)
         = map (\<lambda>u. (u_id u, u_email u, u_password u, u_role u, u_status u, u_createdAt u)) (users s)"
    unfolding s1 using assms(1-5) by (simp add: map_if_same user_set_def)
  show "s1\<lparr>users := users s\<rparr> = s"
    unfolding s1 by simp
qed

lemma update_profile_allow_list:
  "map (\<lambda>u. (u_id u, u_email u, u_password u, u_role u, u_status u, u_createdAt u))
       (users (snd (update_profile now reqBody reqUser s)))
   = map (\<lambda>u. (u_id u, u_email u, u_password u, u_role u, u_status u, u_createdAt u)) (users s)
   \<and> (snd (update_profile now reqBody reqUser s))
        \<lparr>users := users s, activities := activities s, activities_seq := activities_seq s\<rparr> = s"
proof (cases reqUser)
  case None
  then show ?thesis by (simp add: update_profile_def)
next
  case (Some ident)
  let ?data = "pick_allowed [''name'', ''notificationOptIn'', ''profilePictureUrl''] reqBody empty_body"
  have undef: "?data ''id'' = JUndefined" "?data ''email'' = JUndefined"
    "?data ''password'' = JUndefined" "?data ''role'' = JUndefined" "?data ''status'' = JUndefined"
    by (simp_all add: pick_allowed_other empty_body_def del: pick_allowed.simps)
  show ?thesis
  proof (cases "updateUser (i_id ident) ?data s")
    case (Inl err)
    with Some show ?thesis
      by (simp add: update_profile_def Let_def del: pick_allowed.simps)
  next
    case (Inr res)
    obtain rows s1 where res: "res = (rows, s1)" by (cases res)
    from Inr res have upd: "updateUser (i_id ident) ?data s = Inr (rows, s1)" by simp
    have "(s1\<lparr>users := users s\<rparr>)\<lparr>activities := activities s,
             activities_seq := activities_seq s\<rparr> = s"
      by (simp add: updateUser_protected(2) [OF undef upd])
    then have rest: "s1\<lparr>users := users s, activities := activities s,
             activities_seq := activities_seq s\<rparr> = s"
      by simp
    from updateUser_protected(1) [OF undef upd] rest Some Inr res show ?thesis
      by (simp add: update_profile_def Let_def logActivity_keeps logActivity_rest
            del: pick_allowed.simps split: list.splits)
  qed
qed

lemma updateContact_protected:
  assumes "data ''id'' = JUndefined" "data ''name'' = JUndefined"
    "data ''email'' = JUndefined" "data ''message'' = JUndefined"
    "data ''responseMessage'' = JUndefined"
    and "updateContact i data s = Inr (rows, s1)"
  shows "map (\<lambda>c. (c_id c, c_name c, c_email c, c_message c, c_responseMessage c,
                    c_responseDate c, c_createdAt c)) (contacts s1)
         = map (\<lambda>c. (c_id c, c_name c, c_email c, c_message c, c_responseMessage c,
                      c_responseDate c, c_createdAt c)) (contacts s)"
    and "s1\<lparr>contacts := contacts s\<rparr> = s"
proof -
  from assms(6) have s1: "s1 = s\<lparr>contacts := map (\<lambda>c. if c_id c = i then contact_set data c else c) (contacts s)\<rparr>"
    by (auto simp: updateContact_def Let_def split: if_splits)
  show "map (\<lambda>c. (c_id c, c_name c, c_email c, c_message c, c_responseMessage c,
                    c_responseDate c, c_createdAt c)) (contacts s1)
         = map (\<lambda>c. (c_id c, c_name c, c_email c, c_message c, c_responseMessage c,
                      c_responseDate c, c_createdAt c)) (contacts s)"
    unfolding s1 using assms(1-5) by (simp add: map_if_same contact_set_def)
  show "s1\<lparr>contacts := contacts s\<rparr> = s"
    unfolding s1 by simp
qed

lemma update_contact_allow_list:
  "map (\<lambda>c. (c_id c, c_name c, c_email c, c_message c, c_responseMessage c,
              c_responseDate c, c_createdAt c))
       (contacts (snd (update_contact now idParam reqBody reqUser s)))
   = map (\<lambda>c. (c_id c, c_name c, c_email c, c_message c, c_responseMessage c,
                c_responseDate c, c_createdAt c)) (contacts s)
   \<and> (snd (update_contact now idParam reqBody reqUser s))
        \<lparr>contacts := contacts s, activities := activities s,
         activities_seq := activities_seq s\<rparr> = s"
proof (cases "\<exists>contactId found. idParam = Some contactId \<and> getContactById contactId s = Some found")
  case False
  then show ?thesis
    by (auto simp: update_contact_def split: option.splits)
next
  case True
  then obtain contactId found where
    found: "idParam = Some contactId" "getContactById contactId s = Some found" by blast
  let ?data = "pick_allowed [''status''] reqBody empty_body"
  have undef: "?data ''id'' = JUndefined" "?data ''name'' = JUndefined"
    "?data ''email'' = JUndefined" "?data ''message'' = JUndefined"
    "?data ''responseMessage'' = JUndefined"
    by (simp_all add: pick_allowed_other empty_body_def del: pick_allowed.simps)
  show ?thesis
  proof (cases "updateContact contactId ?data s")
    case (Inl err)
    with found show ?thesis
      by (simp add: update_contact_def Let_def del: pick_allowed.simps)
  next
    case (Inr res)
    obtain rows s1 where res: "res = (rows, s1)" by (cases res)
    from Inr res have upd: "updateContact contactId ?data s = Inr (rows, s1)" by simp
    have "(s1\<lparr>contacts := contacts s\<rparr>)\<lparr>activities := activities s,
             activities_seq := activities_seq s\<rparr> = s"
      by (simp add: updateContact_protected(2) [OF undef upd])
    then have rest: "s1\<lparr>contacts := contacts s, activities := activities s,
             activities_seq := activities_seq s\<rparr> = s"
      by simp
    from updateContact_protected(1) [OF undef upd] rest found Inr res show ?thesis
      by (simp add: update_contact_def Let_def logActivity_keeps logActivity_rest
            del: pick_allowed.simps split: list.splits)
  qed
qed

lemma updateDonation_protected:
  assumes "data ''id'' = JUndefined" "data ''userId'' = JUndefined"
    "data ''amount'' = JUndefined" "data ''paymentMethod'' = JUndefined"
    "data ''transactionId'' = JUndefined" "data ''qrImageUrl'' = JUndefined"
    "data ''esewaReference'' = JUndefined"
    and "updateDonation numeric i data s = Inr (rows, s1)"
  shows "map (\<lambda>d. (d_id d, d_userId d, d_amount d, d_paymentMethod d, d_transactionId d,
                    d_qrImageUrl d, d_esewaReference d, d_createdAt d)) (donations s1)
         = map (\<lambda>d. (d_id d, d_userId d, d_amount d, d_paymentMethod d, d_transactionId d,
                      d_qrImageUrl d, d_esewaReference d, d_createdAt d)) (donations s)"
    and "s1\<lparr>donations := donations s\<rparr> = s"
proof -
  from assms(8) have s1: "s1 = s\<lparr>donations := map (\<lambda>d. if d_id d = i then donation_set numeric data d else d) (donations s)\<rparr>"
    by (auto simp: updateDonation_def Let_def split: if_splits)
  show "map (\<lambda>d. (d_id d, d_userId d, d_amount d, d_paymentMethod d, d_transactionId d,
                    d_qrImageUrl d, d_esewaReference d, d_createdAt d)) (donations s1)
         = map (\<lambda>d. (d_id d, d_userId d, d_amount d, d_paymentMethod d, d_transactionId d,
                      d_qrImageUrl d, d_esewaReference d, d_createdAt d)) (donations s)"
    unfolding s1 using assms(1-7) by (simp add: map_if_same donation_set_def amount_val_def)
  show "s1\<lparr>donations := donations s\<rparr> = s"
    unfolding s1 by simp
qed

lemma update_donation_allow_list:
  "map (\<lambda>d. (d_id d, d_userId d, d_amount d, d_paymentMethod d, d_transactionId d,
              d_qrImageUrl d, d_esewaReference d, d_createdAt d))
       (donations (snd (update_donation numeric now idParam reqBody reqUser s)))
   = map (\<lambda>d. (d_id d, d_userId d, d_amount d, d_paymentMethod d, d_transactionId d,
                d_qrImageUrl d, d_esewaReference d, d_createdAt d)) (donations s)
   \<and> (snd (update_donation numeric now idParam reqBody reqUser s))
        \<lparr>donations := donations s, activities := activities s,
         activities_seq := activities_seq s\<rparr> = s"
proof (cases "\<exists>donationId found. idParam = Some donationId \<and> getDonationById donationId s = Some found")
  case False
  then show ?thesis
    by (auto simp: update_donation_def split: option.splits)
next
  case True
  then obtain donationId found where
    found: "idParam = Some donationId" "getDonationById donationId s = Some found" by blast
  let ?data = "pick_allowed [''status''] reqBody empty_body"
  have undef: "?data ''id'' = JUndefined" "?data ''userId'' = JUndefined"
    "?data ''amount'' = JUndefined" "?data ''paymentMethod'' = JUndefined"
    "?data ''transactionId'' = JUndefined" "?data ''qrImageUrl'' = JUndefined"
    "?data ''esewaReference'' = JUndefined"
    by (simp_all add: pick_allowed_other empty_body_def del: pick_allowed.simps)
  show ?thesis
  proof (cases "updateDonation numeric donationId ?data s")
    case (Inl err)
    with found show ?thesis
      by (simp add: update_donation_def Let_def del: pick_allowed.simps)
  next
    case (Inr res)
    obtain rows s1 where res: "res = (rows, s1)" by (cases res)
    from Inr res have upd: "updateDonation numeric donationId ?data s = Inr (rows, s1)" by simp
    have "(s1\<lparr>donations := donations s\<rparr>)\<lparr>activities := activities s,
             activities_seq := activities_seq s\<rparr> = s"
      by (simp add: updateDonation_protected(2) [OF undef upd])
    then have rest: "s1\<lparr>donations := donations s, activities := activities s,
             activities_seq := activities_seq s\<rparr> = s"
      by simp
    from updateDonation_protected(1) [OF undef upd] rest found Inr res show ?thesis
      by (simp add: update_donation_def Let_def logActivity_keeps logActivity_rest
            del: pick_allowed.simps split: list.splits)
  qed
qed

lemma updateMedia_protected:
  assumes "data ''id'' = JUndefined" "data ''cloudinaryUrl'' = JUndefined"
    "data ''cloudinaryPublicId'' = JUndefined" "data ''type'' = JUndefined"
    "data ''uploadedBy'' = JUndefined"
    and "updateMedia i data s = Inr (rows, s1)"
  shows "map (\<lambda>m. (m_id m, m_cloudinaryUrl m, m_cloudinaryPublicId m, m_type m,
                    m_uploadedBy m, m_createdAt m)) (media_rows s1)
         = map (\<lambda>m. (m_id m, m_cloudinaryUrl m, m_cloudinaryPublicId m, m_type m,
                      m_uploadedBy m, m_createdAt m)) (media_rows s)"
    and "s1\<lparr>media_rows := media_rows s\<rparr> = s"
proof -
  from assms(6) have s1: "s1 = s\<lparr>media_rows := map (\<lambda>m. if m_id m = i then media_set data m else m) (media_rows s)\<rparr>"
    by (auto simp: updateMedia_def Let_def split: if_splits)
  show "map (\<lambda>m. (m_id m, m_cloudinaryUrl m, m_cloudinaryPublicId m, m_type m,
                    m_uploadedBy m, m_createdAt m)) (media_rows s1)
         = map (\<lambda>m. (m_id m, m_cloudinaryUrl m, m_cloudinaryPublicId m, m_type m,
                      m_uploadedBy m, m_createdAt m)) (media_rows s)"
    unfolding s1 using assms(1-5) by (simp add: map_if_same media_set_def)
  show "s1\<lparr>media_rows := media_rows s\<rparr> = s"
    unfolding s1 by simp
qed

lemma update_media_allow_list:
  "map (\<lambda>m. (m_id m, m_cloudinaryUrl m, m_cloudinaryPublicId m, m_type m,
              m_uploadedBy m, m_createdAt m))
       (media_rows (snd (update_media now idParam reqBody reqUser s)))
   = map (\<lambda>m. (m_id m, m_cloudinaryUrl m, m_cloudinaryPublicId m, m_type m,
                m_uploadedBy m, m_createdAt m)) (media_rows s)
   \<and> (snd (update_media now idParam reqBody reqUser s))
        \<lparr>media_rows := media_rows s, activities := activities s,
         activities_seq := activities_seq s\<rparr> = s"
proof (cases "\<exists>ident mediaId found. reqUser = Some ident \<and> idParam = Some mediaId
                \<and> getMediaById mediaId s = Some found")
  case False
  then show ?thesis
    by (auto simp: update_media_def split: option.splits)
next
  case True
  then obtain ident mediaId found where
    found: "reqUser = Some ident" "idParam = Some mediaId" "getMediaById mediaId s = Some found"
    by blast
  let ?data = "pick_allowed [''title'', ''description''] reqBody empty_body"
  have undef: "?data ''id'' = JUndefined" "?data ''cloudinaryUrl'' = JUndefined"
    "?data ''cloudinaryPublicId'' = JUndefined" "?data ''type'' = JUndefined"
    "?data ''uploadedBy'' = JUndefined"
    by (simp_all add: pick_allowed_other empty_body_def del: pick_allowed.simps)
  show ?thesis
  proof (cases "updateMedia mediaId ?data s")
    case (Inl err)
    with found show ?thesis
      by (simp add: update_media_def Let_def del: pick_allowed.simps)
  next
    case (Inr res)
    obtain rows s1 where res: "res = (rows, s1)" by (cases res)
    from Inr res have upd: "updateMedia mediaId ?data s = Inr (rows, s1)" by simp
    have "(s1\<lparr>media_rows := media_rows s\<rparr>)\<lparr>activities := activities s,
             activities_seq := activities_seq s\<rparr> = s"
      by (simp add: updateMedia_protected(2) [OF undef upd])
    then have rest: "s1\<lparr>media_rows := media_rows s, activities := activities s,
             activities_seq := activities_seq s\<rparr> = s"
      by simp
    from updateMedia_protected(1) [OF undef upd] rest found Inr res show ?thesis
      by (simp add: update_media_def Let_def logActivity_keeps logActivity_rest
            del: pick_allowed.simps split: list.splits)
  qed
qed

text \<open>
  C7, as the claim states it, fails.  The admin user update hands the request body
  (with the password hashed) to \<open>updateUser\<close>: the owner sets the member's role to
  \<open>owner\<close> and status to \<open>inactive\<close> through it.  The event and the sermon update
  hand \<^verbatim>\<open>req.body\<close> itself to the storage update: a body \<open>{id: 42}\<close> rewrites
  the primary key of the event (sent by a plain member) and of the sermon.
\<close>

theorem raw_body_updates:
  "map u_role (users (snd (admin_update_user (\<lambda>pw. pw) 0 (Some 2)
        (empty_body(''role'' := JStr ''owner'', ''status'' := JStr ''inactive''))
        (Some (identity_of example_owner)) example_db))) = [''owner'', ''owner'']
   \<and> map u_status (users (snd (admin_update_user (\<lambda>pw. pw) 0 (Some 2)
        (empty_body(''role'' := JStr ''owner'', ''status'' := JStr ''inactive''))
        (Some (identity_of example_owner)) example_db))) = [''active'', ''inactive'']
   \<and> map e_id (events (snd (update_event 0 (Some 1) (empty_body(''id'' := JNum 42))
        (Some (identity_of example_member)) example_content_db))) = [42]
   \<and> map s_id (sermons (snd (update_sermon 0 (Some 1) (empty_body(''id'' := JNum 42))
        (Some (identity_of example_owner)) example_content_db))) = [42]"
proof (intro conjI)
  let ?b = "empty_body(''role'' := JStr ''owner'', ''status'' := JStr ''inactive'')"
  have ok: "has_value user_columns ?b" "user_set_ok ?b"
    by (simp_all add: has_value_def user_columns_def user_set_ok_def empty_body_def
          timestamp_ok_def)
  have upd: "updateUser 2 ?b example_db
      = Inr ([example_member\<lparr>u_role := ''owner'', u_status := ''inactive''\<rparr>],
             example_db\<lparr>users := [example_owner,
                example_member\<lparr>u_role := ''owner'', u_status := ''inactive''\<rparr>]\<rparr>)"
    using ok
    by (simp add: updateUser_def Let_def)
       (simp add: example_db_def example_owner_def example_member_def user_set_def
          empty_body_def)
  have res: "users (snd (admin_update_user (\<lambda>pw. pw) 0 (Some 2) ?b
        (Some (identity_of example_owner)) example_db))
      = [example_owner, example_member\<lparr>u_role := ''owner'', u_status := ''inactive''\<rparr>]"
    by (simp add: admin_update_user_def example_member_found upd Let_def logActivity_def
          split: option.splits)
       (simp add: example_member_def OWNER_EMAIL_def empty_body_def)
  show "map u_role (users (snd (admin_update_user (\<lambda>pw. pw) 0 (Some 2) ?b
        (Some (identity_of example_owner)) example_db))) = [''owner'', ''owner'']"
    unfolding res by (simp add: example_owner_def)
  show "map u_status (users (snd (admin_update_user (\<lambda>pw. pw) 0 (Some 2) ?b
        (Some (identity_of example_owner)) example_db))) = [''active'', ''inactive'']"
    unfolding res by (simp add: example_owner_def)
next
  let ?b = "empty_body(''id'' := JNum 42)"
  have ok: "has_value event_columns ?b" "event_set_ok ?b"
    by (simp_all add: has_value_def event_columns_def event_set_ok_def empty_body_def
          timestamp_ok_def)
  have f: "getEventById 1 example_content_db = Some example_event"
    by (simp add: getEventById_def example_content_db_def example_event_def)
  have upd: "updateEvent 1 ?b example_content_db
      = Inr ([example_event\<lparr>e_id := 42\<rparr>],
             example_content_db\<lparr>events := [example_event\<lparr>e_id := 42\<rparr>]\<rparr>)"
    using ok
    by (simp add: updateEvent_def Let_def)
       (simp add: example_content_db_def example_event_def event_set_def empty_body_def
          getMediaById_def example_media_def)
  show "map e_id (events (snd (update_event 0 (Some 1) ?b
        (Some (identity_of example_member)) example_content_db))) = [42]"
    by (simp add: update_event_def f upd logActivity_def Let_def split: option.splits)
next
  let ?b = "empty_body(''id'' := JNum 42)"
  have ok: "has_value sermon_columns ?b" "sermon_set_ok ?b"
    by (simp_all add: has_value_def sermon_columns_def sermon_set_ok_def empty_body_def
          timestamp_ok_def)
  have f: "getSermonById 1 example_content_db = Some example_sermon"
    by (simp add: getSermonById_def example_content_db_def example_sermon_def)
  have r: "i_role (identity_of example_owner) = ''owner''"
    by (simp add: identity_of_def example_owner_def)
  have upd: "updateSermon 1 ?b example_content_db
      = Inr ([example_sermon\<lparr>s_id := 42\<rparr>],
             example_content_db\<lparr>sermons := [example_sermon\<lparr>s_id := 42\<rparr>]\<rparr>)"
    using ok
    by (simp add: updateSermon_def Let_def)
       (simp add: example_content_db_def example_sermon_def sermon_set_def empty_body_def
          getMediaById_def example_media_def)
  show "map s_id (sermons (snd (update_sermon 0 (Some 1) ?b
        (Some (identity_of example_owner)) example_content_db))) = [42]"
    by (simp add: update_sermon_def f r upd logActivity_def Let_def split: option.splits)
qed

text \<open>
  C7, amended.  The update endpoints that build their update from an explicit
  allow-list write only the listed fields of their entity: the self-service profile
  update leaves id, email, password hash, role, status and creation time of every
  user as they were (it writes name, notificationOptIn, profilePictureUrl); the admin
  contact and donation updates leave everything but \<open>status\<close>, and the admin media
  update everything but \<open>title\<close> and \<open>description\<close>.  Beside the entity's table
  only the activity log changes.  This holds for every request body.
\<close>

theorem allow_listed_updates:
  "map (\<lambda>u. (u_id u, u_email u, u_password u, u_role u, u_status u, u_createdAt u))
       (users (snd (update_profile now reqBody reqUser s)))
   = map (\<lambda>u. (u_id u, u_email u, u_password u, u_role u, u_status u, u_createdAt u)) (users s)
   \<and> (snd (update_profile now reqBody reqUser s))
        \<lparr>users := users s, activities := activities s, activities_seq := activities_seq s\<rparr> = s
   \<and> map (\<lambda>c. (c_id c, c_name c, c_email c, c_message c, c_responseMessage c,
              c_responseDate c, c_createdAt c))
       (contacts (snd (update_contact now idParam reqBody reqUser s)))
   = map (\<lambda>c. (c_id c, c_name c, c_email c, c_message c, c_responseMessage c,
                c_responseDate c, c_createdAt c)) (contacts s)
   \<and> (snd (update_contact now idParam reqBody reqUser s))
        \<lparr>contacts := contacts s, activities := activities s,
         activities_seq := activities_seq s\<rparr> = s
   \<and> map (\<lambda>d. (d_id d, d_userId d, d_amount d, d_paymentMethod d, d_transactionId d,
              d_qrImageUrl d, d_esewaReference d, d_createdAt d))
       (donations (snd (update_donation numeric now idParam reqBody reqUser s)))
   = map (\<lambda>d. (d_id d, d_userId d, d_amount d, d_paymentMethod d, d_transactionId d,
                d_qrImageUrl d, d_esewaReference d, d_createdAt d)) (donations s)
   \<and> (snd (update_donation numeric now idParam reqBody reqUser s))
        \<lparr>donations := donations s, activities := activities s,
         activities_seq := activities_seq s\<rparr> = s
   \<and> map (\<lambda>m. (m_id m, m_cloudinaryUrl m, m_cloudinaryPublicId m, m_type m,
              m_uploadedBy m, m_createdAt m))
       (media_rows (snd (update_media now idParam reqBody reqUser s)))
   = map (\<lambda>m. (m_id m, m_cloudinaryUrl m, m_cloudinaryPublicId m, m_type m,
                m_uploadedBy m, m_createdAt m)) (media_rows s)
   \<and> (snd (update_media now idParam reqBody reqUser s))
        \<lparr>media_rows := media_rows s, activities := activities s,
         activities_seq := activities_seq s\<rparr> = s"
  using update_profile_allow_list [of now reqBody reqUser s]
        update_contact_allow_list [of now idParam reqBody reqUser s]
        update_donation_allow_list [of numeric now idParam reqBody reqUser s]
        update_media_allow_list [of now idParam reqBody reqUser s]
  by blast

text \<open>
  A profile update whose body asks for a new name and for the owner role: the name
  is written, the role is not.
\<close>

theorem allow_listed_updates_witness:
  "map (\<lambda>u. (u_id u, u_email u, u_password u, u_role u, u_status u, u_createdAt u))
       (users (snd (update_profile 0
          (empty_body(''name'' := JStr ''Jane Roe'', ''role'' := JStr ''owner''))
          (Some (identity_of example_member)) example_db)))
   = [(1, ''shahidsingh1432@gmail.com'', ''$2b$10$owner'', ''owner'', ''active'', 1700000000000),
      (2, ''jane.doe@example.com'', ''$2b$10$jane'', ''user'', ''active'', 1700000000001)]
   \<and> map u_name (users (snd (update_profile 0
          (empty_body(''name'' := JStr ''Jane Roe'', ''role'' := JStr ''owner''))
          (Some (identity_of example_member)) example_db)))
   = [''Owner'', ''Jane Roe'']"
proof -
  let ?b = "empty_body(''name'' := JStr ''Jane Roe'', ''role'' := JStr ''owner'')"
  have pick: "pick_allowed [''name'', ''notificationOptIn'', ''profilePictureUrl''] ?b empty_body
      = empty_body(''name'' := JStr ''Jane Roe'')"
    by (simp add: empty_body_def)
  have ok: "has_value user_columns (empty_body(''name'' := JStr ''Jane Roe''))"
    "user_set_ok (empty_body(''name'' := JStr ''Jane Roe''))"
    by (simp_all add: has_value_def user_columns_def user_set_ok_def empty_body_def
          timestamp_ok_def)
  have upd: "updateUser 2 (empty_body(''name'' := JStr ''Jane Roe'')) example_db
      = Inr ([example_member\<lparr>u_name := ''Jane Roe''\<rparr>],
             example_db\<lparr>users := [example_owner, example_member\<lparr>u_name := ''Jane Roe''\<rparr>]\<rparr>)"
    using ok
    by (simp add: updateUser_def Let_def)
       (simp add: example_db_def example_owner_def example_member_def user_set_def
          empty_body_def)
  have names: "map u_name (users (snd (update_profile 0 ?b
          (Some (identity_of example_member)) example_db))) = [''Owner'', ''Jane Roe'']"
    by (simp add: update_profile_def pick example_member_id upd Let_def logActivity_keeps
          del: pick_allowed.simps)
       (simp add: example_owner_def example_member_def)
  have before: "map (\<lambda>u. (u_id u, u_email u, u_password u, u_role u, u_status u, u_createdAt u))
       (users example_db)
   = [(1, ''shahidsingh1432@gmail.com'', ''$2b$10$owner'', ''owner'', ''active'', 1700000000000),
      (2, ''jane.doe@example.com'', ''$2b$10$jane'', ''user'', ''active'', 1700000000001)]"
    by (simp add: example_db_def example_owner_def example_member_def)
  from allow_listed_updates [of 0 ?b "Some (identity_of example_member)" example_db]
  have "map (\<lambda>u. (u_id u, u_email u, u_password u, u_role u, u_status u, u_createdAt u))
       (users (snd (update_profile 0 ?b (Some (identity_of example_member)) example_db)))
     = map (\<lambda>u. (u_id u, u_email u, u_password u, u_role u, u_status u, u_createdAt u))
       (users example_db)"
    by blast
  with before names show ?thesis by simp
qed

subsection \<open>Donation history\<close>

text \<open>
  C8.  Listings answer 200 with the page of items and the total of matching rows.
  \<^verbatim>\<open>GET /donations/history\<close> does not: the handler reads \<open>donations\<close> and
  \<open>total\<close> from the storage call and sends \<open>donations\<close> alone, a bare array.  For
  the member's two donations the query returns the page and the total 2, and the
  response carries the page only.
\<close>

theorem donation_history_sends_bare_list:
  "getDonationsByUserId 2 1 10 example_history_db
     = Inr ([example_donation 2 2500 1741564800000, example_donation 1 5000 1739577600000], 2)
   \<and> donation_history None None (Some (identity_of example_member)) example_history_db
     = Response 200 (DonationList [example_donation 2 2500 1741564800000,
                                   example_donation 1 5000 1739577600000])"
  by (simp add: donation_history_def getDonationsByUserId_def or_default_def
        example_history_db_def example_db_def example_donation_def identity_of_def
        example_member_def Let_def)

subsection \<open>Optional identity\<close>

text \<open>
  C9.  \<open>setUserInfo\<close> always calls \<^verbatim>\<open>next\<close> and never responds, whatever the
  request, the table of users and the tokens the library accepts (\<open>jwt_verify\<close> is
  any function).  When the cookie holds a non-empty token that verifies and carries
  the id of an existing user who is not deactivated, the request is handed on with
  that user's identity attached: the id, name, email, role and creation time of the
  row, the notification flag as a boolean and the picture address when there is one,
  and nothing else of the request changed.  In every other case (no cookies, no
  token, a token that does not verify or carries no id, no such user, a deactivated
  user) the request is handed on as it came.  An active user is one whose status is
  not \<open>inactive\<close>: that is the test of the code, and \<open>active\<close> and \<open>inactive\<close>
  are the two statuses of \<^verbatim>\<open>schema.ts\<close>.
\<close>

theorem setUserInfo_never_blocks:
  "\<exists>req'. setUserInfo jwt_verify s req = Next req'
     \<and> (\<forall>cs token decoded uid user.
            cookies req = Some cs \<and> cs ''auth_token'' = Some token \<and> token \<noteq> []
          \<and> jwt_verify token = Some decoded \<and> jwt_id decoded = Some uid \<and> uid \<noteq> 0
          \<and> getUserById uid s = Some user \<and> u_status user \<noteq> ''inactive''
          \<longrightarrow> req' = req\<lparr>req_user := Some
                  \<lparr>i_id = u_id user, i_name = u_name user, i_email = u_email user,
                   i_role = u_role user,
                   i_notificationOptIn = (u_notificationOptIn user = Some True),
                   i_profilePictureUrl =
                     (case u_profilePictureUrl user of
                        None \<Rightarrow> None
                      | Some url \<Rightarrow> if url = [] then None else Some url),
                   i_createdAt = u_createdAt user\<rparr>\<rparr>)
     \<and> ((\<nexists>cs token decoded uid user.
            cookies req = Some cs \<and> cs ''auth_token'' = Some token \<and> token \<noteq> []
          \<and> jwt_verify token = Some decoded \<and> jwt_id decoded = Some uid \<and> uid \<noteq> 0
          \<and> getUserById uid s = Some user \<and> u_status user \<noteq> ''inactive'')
          \<longrightarrow> req' = req)"
  by (auto simp: setUserInfo_def verifyToken_def identity_of_def split: option.splits)

text \<open>
  On the example table: the member's token attaches the member's identity; a request
  without cookies, a token the verifier refuses, the token of the deactivated user
  and the token of a deleted user are all handed on with no identity.
\<close>

theorem setUserInfo_never_blocks_witness:
  "setUserInfo example_jwt_verify example_session_db (example_request ''token-of-2'')
       = Next ((example_request ''token-of-2'')\<lparr>req_user := Some
                  \<lparr>i_id = 2, i_name = ''Jane Doe'', i_email = ''jane.doe@example.com'',
                   i_role = ''user'', i_notificationOptIn = True, i_profilePictureUrl = None,
                   i_createdAt = 1700000000001\<rparr>\<rparr>)
   \<and> setUserInfo example_jwt_verify example_session_db
         ((example_request ''token-of-2'')\<lparr>cookies := None\<rparr>)
       = Next ((example_request ''token-of-2'')\<lparr>cookies := None\<rparr>)
   \<and> setUserInfo example_jwt_verify example_session_db (example_request ''forged'')
       = Next (example_request ''forged'')
   \<and> setUserInfo example_jwt_verify example_session_db (example_request ''token-of-3'')
       = Next (example_request ''token-of-3'')
   \<and> setUserInfo example_jwt_verify example_session_db (example_request ''token-of-9'')
       = Next (example_request ''token-of-9'')"
proof -
  let ?attached = "\<lambda>req. \<exists>cs token decoded uid user.
            cookies req = Some cs \<and> cs ''auth_token'' = Some token \<and> token \<noteq> []
          \<and> example_jwt_verify token = Some decoded \<and> jwt_id decoded = Some uid \<and> uid \<noteq> 0
          \<and> getUserById uid example_session_db = Some user \<and> u_status user \<noteq> ''inactive''"
  have users: "getUserById 2 example_session_db = Some example_member"
      "getUserById 3 example_session_db = Some example_inactive"
      "getUserById 9 example_session_db = None"
    by (simp_all add: getUserById_def example_session_db_def example_db_def example_owner_def
          example_member_def example_inactive_def)
  have member: "setUserInfo example_jwt_verify example_session_db (example_request ''token-of-2'')
       = Next ((example_request ''token-of-2'')\<lparr>req_user := Some
                  \<lparr>i_id = 2, i_name = ''Jane Doe'', i_email = ''jane.doe@example.com'',
                   i_role = ''user'', i_notificationOptIn = True, i_profilePictureUrl = None,
                   i_createdAt = 1700000000001\<rparr>\<rparr>)"
  proof -
    from setUserInfo_never_blocks [of example_jwt_verify example_session_db
            "example_request ''token-of-2''"]
    obtain req' where
      r: "setUserInfo example_jwt_verify example_session_db (example_request ''token-of-2'')
            = Next req'"
      and a: "\<And>cs token decoded uid user.
            cookies (example_request ''token-of-2'') = Some cs \<and> cs ''auth_token'' = Some token
          \<and> token \<noteq> [] \<and> example_jwt_verify token = Some decoded \<and> jwt_id decoded = Some uid
          \<and> uid \<noteq> 0 \<and> getUserById uid example_session_db = Some user
          \<and> u_status user \<noteq> ''inactive''
          \<Longrightarrow> req' = (example_request ''token-of-2'')\<lparr>req_user := Some
                  \<lparr>i_id = u_id user, i_name = u_name user, i_email = u_email user,
                   i_role = u_role user,
                   i_notificationOptIn = (u_notificationOptIn user = Some True),
                   i_profilePictureUrl =
                     (case u_profilePictureUrl user of
                        None \<Rightarrow> None
                      | Some url \<Rightarrow> if url = [] then None else Some url),
                   i_createdAt = u_createdAt user\<rparr>\<rparr>"
      by blast
    have "req' = (example_request ''token-of-2'')\<lparr>req_user := Some
                  \<lparr>i_id = 2, i_name = ''Jane Doe'', i_email = ''jane.doe@example.com'',
                   i_role = ''user'', i_notificationOptIn = True, i_profilePictureUrl = None,
                   i_createdAt = 1700000000001\<rparr>\<rparr>"
      using a [of "\<lambda>k. if k = ''auth_token'' then Some ''token-of-2'' else None" "''token-of-2''"
                 "\<lparr>jwt_id = Some 2, jwt_email = ''jane.doe@example.com'', jwt_role = ''user''\<rparr>"
                 2 example_member]
      by (simp add: example_request_def example_jwt_verify_def users example_member_def)
    with r show ?thesis by simp
  qed
  have unchanged: "setUserInfo example_jwt_verify example_session_db req = Next req"
    if "\<not> ?attached req" for req
    using setUserInfo_never_blocks [of example_jwt_verify example_session_db req] that
    by auto
  have no_cookies: "setUserInfo example_jwt_verify example_session_db
         ((example_request ''token-of-2'')\<lparr>cookies := None\<rparr>)
       = Next ((example_request ''token-of-2'')\<lparr>cookies := None\<rparr>)"
    by (rule unchanged) simp
  have forged: "setUserInfo example_jwt_verify example_session_db (example_request ''forged'')
       = Next (example_request ''forged'')"
    by (rule unchanged) (auto simp: example_request_def example_jwt_verify_def)
  have inactive: "setUserInfo example_jwt_verify example_session_db (example_request ''token-of-3'')
       = Next (example_request ''token-of-3'')"
    by (rule unchanged)
       (auto simp: example_request_def example_jwt_verify_def users example_inactive_def
          split: if_splits)
  have deleted: "setUserInfo example_jwt_verify example_session_db (example_request ''token-of-9'')
       = Next (example_request ''token-of-9'')"
    by (rule unchanged)
       (auto simp: example_request_def example_jwt_verify_def users split: if_splits)
  from member no_cookies forged inactive deleted show ?thesis
    by (intro conjI)
qed

subsection \<open>Media upload\<close>

text \<open>
  C10.  On the route \<^verbatim>\<open>POST /admin/media\<close>: when the file is larger than 10MB or
  its MIME type starts with neither \<open>image/\<close> nor \<open>video/\<close>, no call of
  \<open>uploadToCloudinary\<close> is made and the database is unchanged; the request ends in
  the upload middleware's error (or earlier, with 401 or 403 from the gates).  A call
  of \<open>uploadToCloudinary\<close> is made only when the requester is authenticated (as
  owner), the file passed the filter and the size limit, and the body has a truthy
  \<open>title\<close> and \<open>type\<close>; it is then the only call, made with that file.
\<close>

theorem upload_checked_before_remote_call:
  "(part = Some file \<and> (f_size file > 10 * 1024 * 1024 \<or> \<not> fileFilter file)
      \<longrightarrow> snd (upload_media_route configured uploader now req part reqBody s) = (s, [])
          \<and> (\<forall>r. fst (upload_media_route configured uploader now req part reqBody s) = Sent r
                \<longrightarrow> status_of r = 401 \<or> status_of r = 403))
   \<and> (snd (snd (upload_media_route configured uploader now req part reqBody s)) \<noteq> []
      \<longrightarrow> (\<exists>ident accepted.
             req_user req = Some ident \<and> i_role ident = ''owner''
           \<and> part = Some accepted \<and> fileFilter accepted \<and> f_size accepted \<le> 10 * 1024 * 1024
           \<and> truthy (reqBody ''title'') \<and> truthy (reqBody ''type'')
           \<and> snd (snd (upload_media_route configured uploader now req part reqBody s))
               = [(accepted, if reqBody ''type'' = JStr ''image'' then ''image'' else ''video'')]))"
proof (intro conjI impI)
  assume a: "part = Some file \<and> (f_size file > 10 * 1024 * 1024 \<or> \<not> fileFilter file)"
  then have m: "\<exists>msg. upload_single part = MulterError msg"
    by (auto simp: upload_single_def fileSizeLimit_def)
  then show "snd (upload_media_route configured uploader now req part reqBody s) = (s, [])"
    by (auto simp: upload_media_route_def authenticateJWT_def isOwner_def
          split: option.splits middleware_result.splits)
  from m show "\<forall>r. fst (upload_media_route configured uploader now req part reqBody s) = Sent r
                \<longrightarrow> status_of r = 401 \<or> status_of r = 403"
    by (auto simp: upload_media_route_def authenticateJWT_def isOwner_def
          split: option.splits middleware_result.splits if_splits)
next
  assume c: "snd (snd (upload_media_route configured uploader now req part reqBody s)) \<noteq> []"
  show "\<exists>ident accepted.
             req_user req = Some ident \<and> i_role ident = ''owner''
           \<and> part = Some accepted \<and> fileFilter accepted \<and> f_size accepted \<le> 10 * 1024 * 1024
           \<and> truthy (reqBody ''title'') \<and> truthy (reqBody ''type'')
           \<and> snd (snd (upload_media_route configured uploader now req part reqBody s))
               = [(accepted, if reqBody ''type'' = JStr ''image'' then ''image'' else ''video'')]"
  proof (cases "req_user req")
    case None
    with c show ?thesis
      by (simp add: upload_media_route_def authenticateJWT_def)
  next
    case (Some ident)
    show ?thesis
    proof (cases "i_role ident = ''owner''")
      case False
      with Some c show ?thesis
        by (simp add: upload_media_route_def authenticateJWT_def isOwner_def)
    next
      case True
      show ?thesis
      proof (cases part)
        case None
        with Some True c show ?thesis
          by (simp add: upload_media_route_def authenticateJWT_def isOwner_def
                upload_single_def upload_media_def)
      next
        case (Some accepted)
        note part = this
        show ?thesis
        proof (cases "fileFilter accepted \<and> f_size accepted \<le> fileSizeLimit")
          case False
          with part \<open>req_user req = Some ident\<close> True c show ?thesis
            by (auto simp: upload_media_route_def authenticateJWT_def isOwner_def
                  upload_single_def split: if_splits)
        next
          case ok: True
          show ?thesis
          proof (cases "truthy (reqBody ''title'') \<and> truthy (reqBody ''type'')")
            case False
            with ok part \<open>req_user req = Some ident\<close> True c show ?thesis
              by (auto simp: upload_media_route_def authenticateJWT_def isOwner_def
                    upload_single_def upload_media_def)
          next
            case tt: True
            with ok part \<open>req_user req = Some ident\<close> True show ?thesis
              by (auto simp: upload_media_route_def authenticateJWT_def isOwner_def
                    upload_single_def upload_media_def Let_def fileSizeLimit_def
                    split: sum.splits prod.splits)
          qed
        qed
      qed
    qed
  qed
qed

theorem upload_checked_before_remote_call_witness:
  "f_size example_big_file > 10 * 1024 * 1024
   \<and> upload_media_route True example_uploader 0 example_owner_request (Some example_big_file)
        example_upload_body example_db
      = (PassedToErrorHandler ''File too large'', example_db, [])
   \<and> (fileFilter example_text_file = False)
   \<and> upload_media_route True example_uploader 0 example_owner_request (Some example_text_file)
        example_upload_body example_db
      = (PassedToErrorHandler ''Only images and videos are allowed'', example_db, [])
   \<and> req_user example_owner_request = Some (identity_of example_owner)
   \<and> i_role (identity_of example_owner) = ''owner''
   \<and> fileFilter example_small_file \<and> f_size example_small_file \<le> 10 * 1024 * 1024
   \<and> truthy (example_upload_body ''title'') \<and> truthy (example_upload_body ''type'')
   \<and> snd (snd (upload_media_route True example_uploader 0 example_owner_request
                  (Some example_small_file) example_upload_body example_db))
      = [(example_small_file, ''image'')]"
proof -
  have big: "f_size example_big_file > 10 * 1024 * 1024" "fileFilter example_big_file"
    by (simp_all add: example_big_file_def fileFilter_def)
  have plain: "fileFilter example_text_file = False"
    by (simp add: example_text_file_def fileFilter_def)
  have small: "fileFilter example_small_file" "f_size example_small_file \<le> 10 * 1024 * 1024"
    by (simp_all add: example_small_file_def fileFilter_def)
  have who: "req_user example_owner_request = Some (identity_of example_owner)"
    "i_role (identity_of example_owner) = ''owner''"
    by (simp_all add: example_owner_request_def identity_of_def example_owner_def)
  have fields: "truthy (example_upload_body ''title'')" "truthy (example_upload_body ''type'')"
    "example_upload_body ''type'' = JStr ''image''"
    by (simp_all add: example_upload_body_def)
  have r1: "upload_media_route True example_uploader 0 example_owner_request
        (Some example_big_file) example_upload_body example_db
      = (PassedToErrorHandler ''File too large'', example_db, [])"
    using big who
    by (simp add: upload_media_route_def authenticateJWT_def isOwner_def upload_single_def
          fileSizeLimit_def)
  have r2: "upload_media_route True example_uploader 0 example_owner_request
        (Some example_text_file) example_upload_body example_db
      = (PassedToErrorHandler ''Only images and videos are allowed'', example_db, [])"
    using plain who
    by (simp add: upload_media_route_def authenticateJWT_def isOwner_def upload_single_def)
  have r3: "snd (snd (upload_media_route True example_uploader 0 example_owner_request
                  (Some example_small_file) example_upload_body example_db))
      = [(example_small_file, ''image'')]"
    using small who fields
    by (simp add: upload_media_route_def authenticateJWT_def isOwner_def upload_single_def
          fileSizeLimit_def upload_media_def uploadToCloudinary_def example_uploader_def
          Let_def split: sum.splits prod.splits)
  show ?thesis
    using upload_checked_before_remote_call [of "Some example_big_file" example_big_file True
            example_uploader 0 example_owner_request example_upload_body example_db]
          upload_checked_before_remote_call [of "Some example_small_file" example_small_file True
            example_uploader 0 example_owner_request example_upload_body example_db]
          big plain small who fields(1,2) r1 r2 r3
    by simp
qed

end
